theory Spec2Isabelle
  imports Complex_Main
begin

section \<open>Numbers of the host language\<close>

text \<open>
  A channel value is a Number: not-a-number, an infinity, or a finite value. The finite
  values are read as reals; \<open>Math.min\<close>, \<open>Math.max\<close> and \<open>Math.round\<close> are exact on
  them, so nothing of the binary representation is needed.
\<close>

datatype jsnum = NaN | NegInfinity | Fin real | PosInfinity

text \<open>\<open>Math.min\<close> and \<open>Math.max\<close> of two Numbers: NaN when either argument is NaN.\<close>

fun Math_min :: "jsnum \<Rightarrow> jsnum \<Rightarrow> jsnum" where
  "Math_min NaN b = NaN"
| "Math_min a NaN = NaN"
| "Math_min NegInfinity b = NegInfinity"
| "Math_min a NegInfinity = NegInfinity"
| "Math_min PosInfinity b = b"
| "Math_min a PosInfinity = a"
| "Math_min (Fin a) (Fin b) = Fin (min a b)"

fun Math_max :: "jsnum \<Rightarrow> jsnum \<Rightarrow> jsnum" where
  "Math_max NaN b = NaN"
| "Math_max a NaN = NaN"
| "Math_max PosInfinity b = PosInfinity"
| "Math_max a PosInfinity = PosInfinity"
| "Math_max NegInfinity b = b"
| "Math_max a NegInfinity = a"
| "Math_max (Fin a) (Fin b) = Fin (max a b)"

text \<open>
  \<open>Math.round\<close> returns an integral Number (the nearest integer, a tie going up), NaN or
  an infinity; the result type says so, which lets \<open>toString(16)\<close> below be exact.
\<close>

datatype jsinteger = IntNaN | IntNegInfinity | IntVal int | IntPosInfinity

fun Math_round :: "jsnum \<Rightarrow> jsinteger" where
  "Math_round NaN = IntNaN"
| "Math_round NegInfinity = IntNegInfinity"
| "Math_round PosInfinity = IntPosInfinity"
| "Math_round (Fin v) = IntVal \<lfloor>v + 1 / 2\<rfloor>"

section \<open>Color.js\<close>

subsection \<open>Channels\<close>

text \<open>A \<open>Color\<close> object: the fields \<open>_r\<close>, \<open>_g\<close>, \<open>_b\<close>.\<close>

record color =
  Color_r :: jsnum
  Color_g :: jsnum
  Color_b :: jsnum

text \<open>The object \<open>{r, g, b}\<close> that \<open>toRgb\<close> returns.\<close>

record rgb =
  rgb_r :: jsinteger
  rgb_g :: jsinteger
  rgb_b :: jsinteger

definition getR :: "color \<Rightarrow> jsinteger" where
  "getR c = Math_round (Color_r c)"

definition setR :: "color \<Rightarrow> jsnum \<Rightarrow> color" where
  "setR c v = c\<lparr>Color_r := Math_max (Fin 0) (Math_min v (Fin 255))\<rparr>"

definition getG :: "color \<Rightarrow> jsinteger" where
  "getG c = Math_round (Color_g c)"

definition setG :: "color \<Rightarrow> jsnum \<Rightarrow> color" where
  "setG c v = c\<lparr>Color_g := Math_max (Fin 0) (Math_min v (Fin 255))\<rparr>"

definition getB :: "color \<Rightarrow> jsinteger" where
  "getB c = Math_round (Color_b c)"

definition setB :: "color \<Rightarrow> jsnum \<Rightarrow> color" where
  "setB c v = c\<lparr>Color_b := Math_max (Fin 0) (Math_min v (Fin 255))\<rparr>"

definition toRgb :: "color \<Rightarrow> rgb" where
  "toRgb c = \<lparr>rgb_r = getR c, rgb_g = getG c, rgb_b = getB c\<rparr>"

subsection \<open>Hexadecimal text\<close>

text \<open>
  A string is a list of UTF-16 code units below 256, a \<open>char\<close> being the unit with its
  code (the characters of ASCII and Latin-1); a string with a larger unit is outside the
  model. \<open>Number.prototype.toString(16)\<close> on an integral Number: lower-case digits, no
  leading zero, a minus sign for a negative value.
\<close>

definition hexDigit :: "nat \<Rightarrow> char" where
  "hexDigit d = ''0123456789abcdef'' ! (d mod 16)"

function digits16 :: "nat \<Rightarrow> string" where
  "digits16 n = (if n < 16 then [hexDigit n] else digits16 (n div 16) @ [hexDigit (n mod 16)])"
  by pat_completeness auto
termination
  by (relation "measure id") auto

fun toString16 :: "jsinteger \<Rightarrow> string" where
  "toString16 IntNaN = ''NaN''"
| "toString16 IntNegInfinity = ''-Infinity''"
| "toString16 IntPosInfinity = ''Infinity''"
| "toString16 (IntVal n) = (if n < 0 then CHR ''-'' # digits16 (nat (- n)) else digits16 (nat n))"

definition pad2 :: "string \<Rightarrow> string" where
  "pad2 c = (if length c = 1 then CHR ''0'' # c else c)"

definition toHex :: "color \<Rightarrow> string" where
  "toHex c = CHR ''#'' # concat [pad2 (toString16 (getR c)), pad2 (toString16 (getG c)),
                                 pad2 (toString16 (getB c))]"

declare digits16.simps [simp del]

subsection \<open>The two regular expressions\<close>

text \<open>
  The upper-case form of one code unit below 256, as the code units of the result
  (Unicode's default case conversion, which \<open>String.prototype.toUpperCase\<close> applies): the
  letters \<open>a\<close> to \<open>z\<close> and the Latin-1 letters from 224 to 254 (but the division sign
  247) move down by 32; the micro sign 181 becomes the Greek capital mu, 924; the sharp s
  223 becomes the two units of \<open>SS\<close>; the y with diaeresis 255 becomes 376; every other
  unit stays. The result can hold units above 255, so it is a list of numbers.
\<close>

definition upperUnits :: "char \<Rightarrow> nat list" where
  "upperUnits c =
     (let u = (of_char c :: nat)
      in if 97 \<le> u \<and> u \<le> 122 then [u - 32]
         else if u = 181 then [924]
         else if u = 223 then [83, 83]
         else if (224 \<le> u \<and> u \<le> 246) \<or> (248 \<le> u \<and> u \<le> 254) then [u - 32]
         else if u = 255 then [376]
         else [u])"

text \<open>\<open>String.prototype.toUpperCase\<close>: the code units of the upper-case form.\<close>

definition toUpperCase :: "string \<Rightarrow> nat list" where
  "toUpperCase s = concat (map upperUnits s)"

text \<open>
  The canonical form of a character under the \<open>i\<close> flag of a regular expression (without
  the \<open>u\<close> flag): its upper-case form when that is a single unit, but the character
  itself when the upper-case form has several units or is an ASCII unit for a character
  that is not. Two characters match when their canonical forms are equal.
\<close>

definition canonicalize :: "char \<Rightarrow> nat" where
  "canonicalize c =
     (case upperUnits c of
        [cu] \<Rightarrow> (if 128 \<le> (of_char c :: nat) \<and> cu < 128 then of_char c else cu)
      | _ \<Rightarrow> of_char c)"

text \<open>The class \<open>\d\<close>: the ten ASCII digits.\<close>

definition isDigit :: "char \<Rightarrow> bool" where
  "isDigit c = (48 \<le> (of_char c :: nat) \<and> (of_char c :: nat) \<le> 57)"

text \<open>
  The class \<open>[0-9A-F]\<close> under the \<open>i\<close> flag: the characters whose canonical form is the
  canonical form of a member of the class.
\<close>

definition isHexDigit :: "char \<Rightarrow> bool" where
  "isHexDigit c = (canonicalize c \<in> set (map canonicalize ''0123456789ABCDEF''))"

text \<open>
  \<open>HEX_REGEX = /#([0-9A-F]{2})([0-9A-F]{2})([0-9A-F]{2})/i\<close>. The pattern is not anchored:
  the search tries every start position from the left and returns the three captures of
  the first position that matches, \<open>None\<close> (the \<open>null\<close> of \<open>match\<close>) when none does.
\<close>

fun HEX_REGEX_match :: "string \<Rightarrow> (string \<times> string \<times> string) option" where
  "HEX_REGEX_match [] = None"
| "HEX_REGEX_match (c # cs) =
     (if c = CHR ''#'' \<and> 6 \<le> length cs \<and> list_all isHexDigit (take 6 cs)
      then Some (take 2 cs, take 2 (drop 2 cs), take 2 (drop 4 cs))
      else HEX_REGEX_match cs)"

text \<open>
  One \<open>(\d{1,3})\<close> followed by a literal that starts with a character that is no digit:
  the greedy group can only stop where the run of digits stops, so the run must have one
  to three digits and the literal must follow it. Returns the capture and the rest.
\<close>

definition digitsThen :: "string \<Rightarrow> string \<Rightarrow> (string \<times> string) option" where
  "digitsThen lit s =
     (let d = takeWhile isDigit s; rest = dropWhile isDigit s
      in if 1 \<le> length d \<and> length d \<le> 3 \<and> take (length lit) rest = lit
         then Some (d, drop (length lit) rest) else None)"

text \<open>
  \<open>RGB_REGEX = /rgb\((\d{1,3}), (\d{1,3}), (\d{1,3})\)/i\<close> tried at the start of the
  string: the four characters \<open>rgb(\<close> up to their canonical form, then the three groups.
\<close>

definition RGB_REGEX_here :: "string \<Rightarrow> (string \<times> string \<times> string) option" where
  "RGB_REGEX_here s =
     (if map canonicalize (take 4 s) = map canonicalize ''rgb(''
      then (case digitsThen '', '' (drop 4 s) of
              None \<Rightarrow> None
            | Some (r, s1) \<Rightarrow>
                (case digitsThen '', '' s1 of
                   None \<Rightarrow> None
                 | Some (g, s2) \<Rightarrow>
                     (case digitsThen '')'' s2 of
                        None \<Rightarrow> None
                      | Some (b, s3) \<Rightarrow> Some (r, g, b))))
      else None)"

text \<open>The search, not anchored either: the leftmost start position that matches.\<close>

fun RGB_REGEX_match :: "string \<Rightarrow> (string \<times> string \<times> string) option" where
  "RGB_REGEX_match [] = None"
| "RGB_REGEX_match (c # cs) =
     (case RGB_REGEX_here (c # cs) of
        Some m \<Rightarrow> Some m
      | None \<Rightarrow> RGB_REGEX_match cs)"

subsection \<open>Reading digits\<close>

text \<open>
  The digits of \<open>parseInt\<close> in radix 16, which are the ASCII digits and the letters \<open>A\<close> to
  \<open>F\<close> in both cases, and their values.
\<close>

definition isRadix16Digit :: "char \<Rightarrow> bool" where
  "isRadix16Digit c =
     (let u = (of_char c :: nat)
      in (48 \<le> u \<and> u \<le> 57) \<or> (65 \<le> u \<and> u \<le> 70) \<or> (97 \<le> u \<and> u \<le> 102))"

definition hexValue :: "char \<Rightarrow> nat" where
  "hexValue c =
     (let u = (of_char c :: nat)
      in if u \<le> 57 then u - 48 else if u \<le> 70 then u - 55 else u - 87)"

text \<open>
  \<open>parseInt(s, 16)\<close> on a string without leading blanks, sign or \<open>0x\<close> prefix (the callers
  pass a capture of two hexadecimal digits): the value of the leading digits, NaN when
  there is none.
\<close>

definition parseInt16 :: "string \<Rightarrow> jsnum" where
  "parseInt16 s =
     (let ds = takeWhile isRadix16Digit s
      in if ds = [] then NaN else Fin (real (foldl (\<lambda>a c. 16 * a + hexValue c) 0 ds)))"

text \<open>
  The conversion to Number that \<open>Math.min\<close> applies to a capture of \<open>RGB_REGEX\<close>, a string
  of one to three decimal digits: its decimal value.
\<close>

definition digitsToNumber :: "string \<Rightarrow> jsnum" where
  "digitsToNumber s = Fin (real (foldl (\<lambda>a c. 10 * a + ((of_char c :: nat) - 48)) 0 s))"

subsection \<open>The dictionary of named colors\<close>

definition COLORS :: "(string \<times> string) list" where
  "COLORS =
    [(''ALICE_BLUE'', ''#F0F8FF''),
     (''ANTIQUE_WHITE'', ''#FAEBD7''),
     (''AQUA'', ''#00FFFF''),
     (''AZURE'', ''#F0FFFF''),
     (''BEIGE'', ''#F5F5DC''),
     (''BISQUE'', ''#FFE4C4''),
     (''BLANCHED_ALMOND'', ''#FFEBCD''),
     (''BURLY_WOOD'', ''#DEB887''),
     (''CHARTREUSE'', ''#7FFF00''),
     (''CHOCOLATE'', ''#D2691E''),
     (''CORAL'', ''#FF7F50''),
     (''CORN_FLOWER_BLUE'', ''#6495ED''),
     (''CORN_SILK'', ''#FFF8DC''),
     (''CRIMSON'', ''#DC143C''),
     (''CYAN'', ''#00FFFF''),
     (''DARK_BLUE'', ''#00008B''),
     (''DARK_CYAN'', ''#008B8B''),
     (''DARK_GOLDEN_ROD'', ''#B8860B''),
     (''DARK_GRAY'', ''#A9A9A9''),
     (''DARK_GREEN'', ''#006400''),
     (''DARK_GREY'', ''#A9A9A9''),
     (''DARK_KHAKI'', ''#BDB76B''),
     (''DARK_MAGENTA'', ''#8B008B''),
     (''DARK_OLIVE_GREEN'', ''#556B2F''),
     (''DARK_ORANGE'', ''#FF8C00''),
     (''DARK_ORCHID'', ''#9932CC''),
     (''DARK_RED'', ''#8B0000''),
     (''DARK_SALMON'', ''#E9967A''),
     (''DARK_SEA_GREEN'', ''#8FBC8F''),
     (''DARK_SLATE_BLUE'', ''#483D8B''),
     (''DARK_SLATE_GRAY'', ''#2F4F4F''),
     (''DARK_SLATE_GREY'', ''#2F4F4F''),
     (''DARK_TURQUOISE'', ''#00CED1''),
     (''DARK_VIOLET'', ''#9400D3''),
     (''DEEP_PINK'', ''#FF1493''),
     (''DEEP_SKY_BLUE'', ''#00BFFF''),
     (''DIM_GRAY'', ''#696969''),
     (''DIM_GREY'', ''#696969''),
     (''DODGER_BLUE'', ''#1E90FF''),
     (''FIREBRICK'', ''#B22222''),
     (''FLORAL_WHITE'', ''#FFFAF0''),
     (''GAINS_BORO'', ''#DCDCDC''),
     (''GHOST_WHITE'', ''#F8F8FF''),
     (''GREY'', ''#808080''),
     (''HONEYDEW'', ''#F0FFF0''),
     (''HOT_PINK'', ''#FF69B4''),
     (''INDIAN_RED'', ''#CD5C5C''),
     (''IVORY'', ''#FFFFF0''),
     (''KHAKI'', ''#F0E68C''),
     (''LAVENDER_BLUSH'', ''#FFF0F5''),
     (''LAWN_GREEN'', ''#7CFC00''),
     (''LEMON_CHIFFON'', ''#FFFACD''),
     (''LIGHT_BLUE'', ''#ADD8E6''),
     (''LIGHT_CORAL'', ''#F08080''),
     (''LIGHT_CYAN'', ''#E0FFFF''),
     (''LIGHT_GOLDENROD_YELLOW'', ''#FAFAD2''),
     (''LIGHT_GRAY'', ''#D3D3D3''),
     (''LIGHT_GREEN'', ''#90EE90''),
     (''LIGHT_GREY'', ''#D3D3D3''),
     (''LIGHT_PINK'', ''#FFB6C1''),
     (''LIGHT_SALMON'', ''#FFA07A''),
     (''LIGHT_SEA_GREEN'', ''#20B2AA''),
     (''LIGHT_SKY_BLUE'', ''#87CEFA''),
     (''LIGHT_SLATE_GRAY'', ''#778899''),
     (''LIGHT_SLATE_GREY'', ''#778899''),
     (''LIGHT_STEEL_BLUE'', ''#B0C4DE''),
     (''LIGHT_YELLOW'', ''#FFFFE0''),
     (''LIME'', ''#00FF00''),
     (''LIME_GREEN'', ''#32CD32''),
     (''LINEN'', ''#FAF0E6''),
     (''MEDIUM_AQUAMARINE'', ''#66CDAA''),
     (''MEDIUM_BLUE'', ''#0000CD''),
     (''MEDIUM_ORCHID'', ''#BA55D3''),
     (''MEDIUM_PURPLE'', ''#9370DB''),
     (''MEDIUM_SEA_GREEN'', ''#3CB371''),
     (''MEDIUM_SLATE_BLUE'', ''#7B68EE''),
     (''MEDIUM_SPRING_GREEN'', ''#00FA9A''),
     (''MEDIUM_TURQUOISE'', ''#48D1CC''),
     (''MEDIUM_VIOLET_RED'', ''#C71585''),
     (''MINT_CREAM'', ''#F5FFFA''),
     (''MISTY_ROSE'', ''#FFE4E1''),
     (''MOCCASIN'', ''#FFE4B5''),
     (''NAVAJO_WHITE'', ''#FFDEAD''),
     (''NAVY'', ''#000080''),
     (''OLD_LACE'', ''#FDF5E6''),
     (''OLIVE'', ''#808000''),
     (''OLIVE_DRAB'', ''#6B8E23''),
     (''PALE_GOLDENROD'', ''#EEE8AA''),
     (''PALE_GREEN'', ''#98FB98''),
     (''PALE_TURQUOISE'', ''#AFEEEE''),
     (''PALE_VIOLET_RED'', ''#DB7093''),
     (''PAPAYA_WHIP'', ''#FFEFD5''),
     (''PEACH_PUFF'', ''#FFDAB9''),
     (''PERU'', ''#CD853F''),
     (''PINK'', ''#FFC0CB''),
     (''POWDER_BLUE'', ''#B0E0E6''),
     (''PURPLE'', ''#800080''),
     (''REBECCA_PURPLE'', ''#663399''),
     (''ROSY_BROWN'', ''#BC8F8F''),
     (''ROYAL_BLUE'', ''#4169E1''),
     (''SADDLE_BROWN'', ''#8B4513''),
     (''SANDY_BROWN'', ''#F4A460''),
     (''SEASHELL'', ''#FFF5EE''),
     (''SIENNA'', ''#A0522D''),
     (''SLATE_BLUE'', ''#6A5ACD''),
     (''SLATE_GRAY'', ''#708090''),
     (''SLATE_GREY'', ''#708090''),
     (''SNOW'', ''#FFFAFA''),
     (''STEEL_BLUE'', ''#4682B4''),
     (''TEAL'', ''#008080''),
     (''TOMATO'', ''#FF6347''),
     (''TURQUOISE'', ''#40E0D0''),
     (''VIOLET'', ''#EE82EE''),
     (''WHEAT'', ''#F5DEB3''),
     (''WHITE_SMOKE'', ''#F5F5F5''),
     (''ALMOND'', ''#EFDECD''),
     (''ANTIQUE_BRASS'', ''#CD9575''),
     (''APRICOT'', ''#FDD9B5''),
     (''AQUAMARINE'', ''#78DBE2''),
     (''ASPARAGUS'', ''#87A96B''),
     (''ATOMIC_TANGERINE'', ''#FFA474''),
     (''BANANA_MANIA'', ''#FAE7B5''),
     (''BEAVER'', ''#9F8170''),
     (''BITTERSWEET'', ''#FD7C6E''),
     (''BLACK'', ''#000000''),
     (''BLIZZARD_BLUE'', ''#ACE5EE''),
     (''BLUE'', ''#1F75FE''),
     (''BLUE_BELL'', ''#A2A2D0''),
     (''BLUE_GRAY'', ''#6699CC''),
     (''BLUE_GREEN'', ''#0D98BA''),
     (''BLUE_VIOLET'', ''#7366BD''),
     (''BLUSH'', ''#DE5D83''),
     (''BRICK_RED'', ''#CB4154''),
     (''BROWN'', ''#B4674D''),
     (''BURNT_ORANGE'', ''#FF7F49''),
     (''BURNT_SIENNA'', ''#EA7E5D''),
     (''CADET_BLUE'', ''#B0B7C6''),
     (''CANARY'', ''#FFFF99''),
     (''CARIBBEAN_GREEN'', ''#1CD3A2''),
     (''CARNATION_PINK'', ''#FFAACC''),
     (''CERISE'', ''#DD4492''),
     (''CERULEAN'', ''#1DACD6''),
     (''CHESTNUT'', ''#BC5D58''),
     (''COPPER'', ''#DD9475''),
     (''CORNFLOWER'', ''#9ACEEB''),
     (''COTTON_CANDY'', ''#FFBCD9''),
     (''DANDELION'', ''#FDDB6D''),
     (''DENIM'', ''#2B6CC4''),
     (''DESERT_SAND'', ''#EFCDB8''),
     (''EGGPLANT'', ''#6E5160''),
     (''ELECTRIC_LIME'', ''#CEFF1D''),
     (''FERN'', ''#71BC78''),
     (''FOREST_GREEN'', ''#6DAE81''),
     (''FUCHSIA'', ''#C364C5''),
     (''FUZZY_WUZZY'', ''#CC6666''),
     (''GOLD'', ''#E7C697''),
     (''GOLDENROD'', ''#FCD975''),
     (''GRANNY_SMITH_APPLE'', ''#A8E4A0''),
     (''GRAY'', ''#95918C''),
     (''GREEN'', ''#1CAC78''),
     (''GREEN_BLUE'', ''#1164B4''),
     (''GREEN_YELLOW'', ''#F0E891''),
     (''HOT_MAGENTA'', ''#FF1DCE''),
     (''INCHWORM'', ''#B2EC5D''),
     (''INDIGO'', ''#5D76CB''),
     (''JAZZBERRY_JAM'', ''#CA3767''),
     (''JUNGLE_GREEN'', ''#3BB08F''),
     (''LASER_LEMON'', ''#FEFE22''),
     (''LAVENDER'', ''#FCB4D5''),
     (''LEMON_YELLOW'', ''#FFF44F''),
     (''MACARONI_AND_CHEESE'', ''#FFBD88''),
     (''MAGENTA'', ''#F664AF''),
     (''MAGIC_MINT'', ''#AAF0D1''),
     (''MAHOGANY'', ''#CD4A4C''),
     (''MAIZE'', ''#EDD19C''),
     (''MANATEE'', ''#979AAA''),
     (''MANGO_TANGO'', ''#FF8243''),
     (''MAROON'', ''#C8385A''),
     (''MAUVELOUS'', ''#EF98AA''),
     (''MELON'', ''#FDBCB4''),
     (''MIDNIGHT_BLUE'', ''#1A4876''),
     (''MOUNTAIN_MEADOW'', ''#30BA8F''),
     (''MULBERRY'', ''#C54B8C''),
     (''NAVY_BLUE'', ''#1974D2''),
     (''NEON_CARROT'', ''#FFA343''),
     (''OLIVE_GREEN'', ''#BAB86C''),
     (''ORANGE'', ''#FF7538''),
     (''ORANGE_RED'', ''#FF2B2B''),
     (''ORANGE_YELLOW'', ''#F8D568''),
     (''ORCHID'', ''#E6A8D7''),
     (''OUTER_SPACE'', ''#414A4C''),
     (''OUTRAGEOUS_ORANGE'', ''#FF6E4A''),
     (''PACIFIC_BLUE'', ''#1CA9C9''),
     (''PEACH'', ''#FFCFAB''),
     (''PERIWINKLE'', ''#C5D0E6''),
     (''PIGGY_PINK'', ''#FDDDE6''),
     (''PINE_GREEN'', ''#158078''),
     (''PINK_FLAMINGO'', ''#FC74FD''),
     (''PINK_SHERBET'', ''#F78FA7''),
     (''PLUM'', ''#8E4585''),
     (''PURPLE_HEART'', ''#7442C8''),
     (''PURPLE_MOUNTAINS_MAJESTY'', ''#9D81BA''),
     (''PURPLE_PIZZAZZ'', ''#FE4EDA''),
     (''RADICAL_RED'', ''#FF496C''),
     (''RAW_SIENNA'', ''#D68A59''),
     (''RAW_UMBER'', ''#714B23''),
     (''RAZZLE_DAZZLE_ROSE'', ''#FF48D0''),
     (''RAZZMATAZZ'', ''#E3256B''),
     (''RED'', ''#EE204D''),
     (''RED_ORANGE'', ''#FF5349''),
     (''RED_VIOLET'', ''#C0448F''),
     (''ROBINS_EGG_BLUE'', ''#1FCECB''),
     (''ROYAL_PURPLE'', ''#7851A9''),
     (''SALMON'', ''#FF9BAA''),
     (''SCARLET'', ''#FC2847''),
     (''SCREAMING_GREEN'', ''#76FF7A''),
     (''SEA_GREEN'', ''#9FE2BF''),
     (''SEPIA'', ''#A5694F''),
     (''SHADOW'', ''#8A795D''),
     (''SHAMROCK'', ''#45CEA2''),
     (''SHOCKING_PINK'', ''#FB7EFD''),
     (''SILVER'', ''#CDC5C2''),
     (''SKY_BLUE'', ''#80DAEB''),
     (''SPRING_GREEN'', ''#ECEABE''),
     (''SUNGLOW'', ''#FFCF48''),
     (''SUNSET_ORANGE'', ''#FD5E53''),
     (''TAN'', ''#FAA76C''),
     (''TEAL_BLUE'', ''#18A7B5''),
     (''THISTLE'', ''#EBC7DF''),
     (''TICKLE_ME_PINK'', ''#FC89AC''),
     (''TIMBERWOLF'', ''#DBD7D2''),
     (''TROPICAL_RAIN_FOREST'', ''#17806D''),
     (''TUMBLEWEED'', ''#DEAA88''),
     (''TURQUOISE_BLUE'', ''#77DDE7''),
     (''UNMELLOW_YELLOW'', ''#FFFF66''),
     (''VIOLET_PURPLE'', ''#926EAE''),
     (''VIOLET_BLUE'', ''#324AB2''),
     (''VIOLET_RED'', ''#F75394''),
     (''VIVID_TANGERINE'', ''#FFA089''),
     (''VIVID_VIOLET'', ''#8F509D''),
     (''WHITE'', ''#FFFFFF''),
     (''WILD_BLUE_YONDER'', ''#A2ADD0''),
     (''WILD_STRAWBERRY'', ''#FF43A4''),
     (''WILD_WATERMELON'', ''#FC6C85''),
     (''WISTERIA'', ''#CDA4DE''),
     (''YELLOW'', ''#FCE883''),
     (''YELLOW_GREEN'', ''#C5E384''),
     (''YELLOW_ORANGE'', ''#FFAE42'')]"

text \<open>
  Reading the dictionary under a property name given by its code units: the entry whose
  key has these code units, \<open>None\<close> (\<open>undefined\<close>) when there is none.
\<close>

definition COLORS_get :: "nat list \<Rightarrow> string option" where
  "COLORS_get key = map_of (map (\<lambda>(k, v). (map of_char k, v)) COLORS) key"

subsection \<open>Construction\<close>

text \<open>
  The argument of the constructor. The documented argument is a string or an object with
  Number properties; the other primitive values are kept because callers pass them. A
  string is a primitive string of units below 256. An object is a plain object, given by
  its own properties \<open>r\<close>, \<open>g\<close>, \<open>b\<close>, each present with a Number or absent, and has no
  others. Every other value (an array, a function, a wrapper object, an object with
  accessors or a \<open>toString\<close> of its own) is outside the model.
\<close>

datatype colorArg =
    ArgUndefined
  | ArgNull
  | ArgBoolean bool
  | ArgNumber jsnum
  | ArgString string
  | ArgObject "jsnum option" "jsnum option" "jsnum option"

text \<open>The two kinds of exception: the \<open>Error\<close> that the constructor throws, and \<open>TypeError\<close>.\<close>

datatype error = Error | TypeError

text \<open>
  \<open>isNamed\<close>: the entry of the dictionary under the upper-case form of a string is a
  non-empty string, which is truthy, or \<open>undefined\<close>. The properties that the dictionary
  object inherits have lower-case letters in their names, so no upper-case form finds
  them.
\<close>

definition isNamed :: "colorArg \<Rightarrow> bool" where
  "isNamed color =
     (case color of
        ArgString s \<Rightarrow> COLORS_get (toUpperCase s) \<noteq> None
      | _ \<Rightarrow> False)"

text \<open>
  \<open>RegExp.prototype.test\<close> converts its argument to a string first. The string of a Number
  is made of digits, \<open>.\<close>, \<open>-\<close>, \<open>+\<close>, \<open>e\<close> or is \<open>NaN\<close> or \<open>Infinity\<close>: it holds neither \<open>#\<close>
  nor \<open>rgb(\<close>, and neither pattern matches it.
\<close>

definition isRgb :: "colorArg \<Rightarrow> bool" where
  "isRgb rgb =
     (case rgb of
        ArgString s \<Rightarrow> RGB_REGEX_match s \<noteq> None
      | ArgUndefined \<Rightarrow> RGB_REGEX_match ''undefined'' \<noteq> None
      | ArgNull \<Rightarrow> RGB_REGEX_match ''null'' \<noteq> None
      | ArgBoolean b \<Rightarrow> RGB_REGEX_match (if b then ''true'' else ''false'') \<noteq> None
      | ArgNumber n \<Rightarrow> False
      | ArgObject r g b \<Rightarrow> RGB_REGEX_match ''[object Object]'' \<noteq> None)"

definition isHex :: "colorArg \<Rightarrow> bool" where
  "isHex hex =
     (case hex of
        ArgString s \<Rightarrow> HEX_REGEX_match s \<noteq> None
      | ArgUndefined \<Rightarrow> HEX_REGEX_match ''undefined'' \<noteq> None
      | ArgNull \<Rightarrow> HEX_REGEX_match ''null'' \<noteq> None
      | ArgBoolean b \<Rightarrow> HEX_REGEX_match (if b then ''true'' else ''false'') \<noteq> None
      | ArgNumber n \<Rightarrow> False
      | ArgObject r g b \<Rightarrow> HEX_REGEX_match ''[object Object]'' \<noteq> None)"

text \<open>Reading a property of the argument object: \<open>undefined\<close>, hence NaN in \<open>Math.min\<close>, when absent.\<close>

definition property :: "jsnum option \<Rightarrow> jsnum" where
  "property p = (case p of None \<Rightarrow> NaN | Some v \<Rightarrow> v)"

text \<open>
  The constructor from its fourth statement on, for an argument that is an object: the
  test of \<open>hasOwnProperty\<close>, the three fields set to 0, the three setters.
\<close>

definition Color_ofObject :: "jsnum option \<Rightarrow> jsnum option \<Rightarrow> jsnum option \<Rightarrow> error + color" where
  "Color_ofObject r g b =
     (if \<not> (r \<noteq> None \<or> g \<noteq> None \<or> b \<noteq> None) then Inl Error
      else Inr (setB (setG (setR \<lparr>Color_r = Fin 0, Color_g = Fin 0, Color_b = Fin 0\<rparr>
                              (property r)) (property g)) (property b)))"

text \<open>
  \<open>fromRgb\<close> and \<open>fromHex\<close> destructure the result of \<open>match\<close>, which raises a TypeError on
  \<open>null\<close>, and call \<open>create\<close> on an object holding the three captures; the constructor's
  three tests fail on that object (see \<open>Color_constructor_object\<close>) and its last part runs.
\<close>

definition fromRgb :: "string \<Rightarrow> error + color" where
  "fromRgb rgb =
     (case RGB_REGEX_match rgb of
        None \<Rightarrow> Inl TypeError
      | Some (r, g, b) \<Rightarrow>
          Color_ofObject (Some (digitsToNumber r)) (Some (digitsToNumber g)) (Some (digitsToNumber b)))"

definition fromHex :: "string \<Rightarrow> error + color" where
  "fromHex hex =
     (case HEX_REGEX_match hex of
        None \<Rightarrow> Inl TypeError
      | Some (r, g, b) \<Rightarrow>
          Color_ofObject (Some (parseInt16 r)) (Some (parseInt16 g)) (Some (parseInt16 b)))"

text \<open>
  The constructor. Past the three tests, \<open>hasOwnProperty.call\<close> raises a TypeError on
  \<open>undefined\<close> and \<open>null\<close>, and finds no own property \<open>r\<close>, \<open>g\<close> or \<open>b\<close> on a boolean, a
  Number or a string. A non-string argument that passes \<open>isRgb\<close> or \<open>isHex\<close> has no
  method \<open>match\<close>.
\<close>

definition Color_constructor :: "colorArg \<Rightarrow> error + color" where
  "Color_constructor color =
     (if isNamed color
      then (case color of
              ArgString s \<Rightarrow> fromHex (case COLORS_get (toUpperCase s) of Some h \<Rightarrow> h | None \<Rightarrow> [])
            | _ \<Rightarrow> Inl TypeError)
      else if isRgb color
      then (case color of ArgString s \<Rightarrow> fromRgb s | _ \<Rightarrow> Inl TypeError)
      else if isHex color
      then (case color of ArgString s \<Rightarrow> fromHex s | _ \<Rightarrow> Inl TypeError)
      else (case color of
              ArgUndefined \<Rightarrow> Inl TypeError
            | ArgNull \<Rightarrow> Inl TypeError
            | ArgObject r g b \<Rightarrow> Color_ofObject r g b
            | _ \<Rightarrow> Inl Error))"

definition Color_create :: "colorArg \<Rightarrow> error + color" where
  "Color_create color = Color_constructor color"

section \<open>Cell\<close>

text \<open>
  \<open>Cursor.js\<close> imports the class \<open>Cell\<close> from \<open>./Cell\<close>, which is not among the sources.
\<close>

text \<open>
  The value of the pen's \<open>_display\<close>, which a Cell receives as it is: the six display
  flags, or the value \<open>false\<close> that the constructor of \<open>Cursor\<close> passes to \<open>setDisplay\<close>.
\<close>

datatype display =
    DisplayFalse
  | DisplayFlags (bold: bool) (dim: bool) (underlined: bool) (blink: bool) (reversed: bool)
      (hidden: bool)

text \<open>
  Modelled from the spec: the class \<open>Cell\<close>, absent from the sources. The spec gives a
  Cell five components, fixed when it is built by \<open>new Cell(char, {x, y, background,
  foreground, display})\<close>: the character, the absolute position, the background, the
  foreground and the display attributes. A background or foreground is the \<open>{r, g, b}\<close>
  object held by the pen, or \<open>None\<close> where the pen's field was never assigned.
\<close>

record cell =
  Cell_char :: char
  Cell_x :: int
  Cell_y :: int
  Cell_background :: "rgb option"
  Cell_foreground :: "rgb option"
  Cell_display :: display

text \<open>
  Modelled from the spec: the method \<open>Cell.setChar\<close>, absent from the sources. By the
  spec it replaces the character in place and preserves all other fields.
\<close>

definition setChar :: "cell \<Rightarrow> char \<Rightarrow> cell" where
  "setChar c ch = c\<lparr>Cell_char := ch\<rparr>"

section \<open>Cursor.js\<close>

subsection \<open>Arrays\<close>

text \<open>
  The buffer \<open>_terminal\<close> is an array of Cells that may have holes: \<open>None\<close> is a hole. Reading
  an index that is negative, past the end or a hole gives \<open>undefined\<close> (\<open>None\<close>); storing
  past the end lengthens the array and leaves holes in between. The cells are owned by
  the array: no cell sits in two slots.
\<close>

definition arrayGet :: "'a option list \<Rightarrow> int \<Rightarrow> 'a option" where
  "arrayGet a i = (if 0 \<le> i \<and> i < int (length a) then a ! nat i else None)"

definition arraySet :: "'a option list \<Rightarrow> nat \<Rightarrow> 'a \<Rightarrow> 'a option list" where
  "arraySet a i v =
     (if i < length a then a[i := Some v]
      else a @ replicate (i - length a) None @ [Some v])"

text \<open>The elements that \<open>filter\<close> and \<open>map\<close> visit, in index order: holes are skipped.\<close>

fun elements :: "'a option list \<Rightarrow> 'a list" where
  "elements [] = []"
| "elements (None # a) = elements a"
| "elements (Some v # a) = v # elements a"

subsection \<open>State\<close>

text \<open>
  The fields of a \<open>Cursor\<close>. The methods read \<open>_width\<close>, \<open>_height\<close> and \<open>_lastFrame\<close>, which
  no statement of the class assigns: they are fields that the environment of the object
  supplies (the spec has the dimensions come from an external provider), integers and a
  \<open>Set\<close>. The members of the \<open>Set\<close> are strings or \<open>undefined\<close> (\<open>None\<close>). The pen
  colours are \<open>None\<close> until a setter has assigned them.
\<close>

record cursor =
  Cursor_terminal :: "cell option list"
  Cursor_x :: int
  Cursor_y :: int
  Cursor_background :: "rgb option"
  Cursor_foreground :: "rgb option"
  Cursor_display :: display
  Cursor_width :: int
  Cursor_height :: int
  Cursor_lastFrame :: "string option set"

definition setTerminal :: "cursor \<Rightarrow> cell option list \<Rightarrow> cursor" where
  "setTerminal s terminal = s\<lparr>Cursor_terminal := terminal\<rparr>"

definition setX :: "cursor \<Rightarrow> real \<Rightarrow> cursor" where
  "setX s x = s\<lparr>Cursor_x := \<lfloor>x\<rfloor>\<rparr>"

definition setY :: "cursor \<Rightarrow> real \<Rightarrow> cursor" where
  "setY s y = s\<lparr>Cursor_y := \<lfloor>y\<rfloor>\<rparr>"

definition setBackground :: "cursor \<Rightarrow> colorArg \<Rightarrow> error + cursor" where
  "setBackground s background =
     (case Color_create background of
        Inl e \<Rightarrow> Inl e
      | Inr c \<Rightarrow> Inr (s\<lparr>Cursor_background := Some (toRgb c)\<rparr>))"

definition setForeground :: "cursor \<Rightarrow> colorArg \<Rightarrow> error + cursor" where
  "setForeground s foreground =
     (case Color_create foreground of
        Inl e \<Rightarrow> Inl e
      | Inr c \<Rightarrow> Inr (s\<lparr>Cursor_foreground := Some (toRgb c)\<rparr>))"

definition setDisplay :: "cursor \<Rightarrow> display \<Rightarrow> cursor" where
  "setDisplay s d = s\<lparr>Cursor_display := d\<rparr>"

text \<open>
  The constructor, run on the fresh object \<open>this\<close>: six setters in the order of the
  source, the first error ending the construction.
\<close>

definition Cursor_constructor :: "cursor \<Rightarrow> cell option list \<Rightarrow> error + cursor" where
  "Cursor_constructor this terminal =
     (let s1 = setTerminal this terminal;
          s2 = setX s1 0;
          s3 = setY s2 0
      in case setBackground s3 (ArgBoolean False) of
           Inl e \<Rightarrow> Inl e
         | Inr s4 \<Rightarrow>
             (case setForeground s4 (ArgBoolean False) of
                Inl e \<Rightarrow> Inl e
              | Inr s5 \<Rightarrow> Inr (setDisplay s5 DisplayFalse)))"

subsection \<open>Coordinates\<close>

text \<open>
  \<open>getPointerFromXY(x = this._x, y = this._y)\<close>: an argument left out (\<open>None\<close>) takes the
  cursor's coordinate.
\<close>

definition getPointerFromXY :: "cursor \<Rightarrow> int option \<Rightarrow> int option \<Rightarrow> int" where
  "getPointerFromXY s x y =
     (case y of None \<Rightarrow> Cursor_y s | Some v \<Rightarrow> v) * Cursor_width s
     + (case x of None \<Rightarrow> Cursor_x s | Some v \<Rightarrow> v)"

text \<open>
  \<open>getXYFromPointer\<close> divides Numbers and floors the quotient. With a width of 0 the
  quotient is an infinity or NaN and the array returned holds no pair of integers:
  \<open>None\<close>.
\<close>

definition getXYFromPointer :: "cursor \<Rightarrow> int \<Rightarrow> (int \<times> int) option" where
  "getXYFromPointer s index =
     (if Cursor_width s = 0 then None
      else Some (index - \<lfloor>real_of_int index / real_of_int (Cursor_width s)\<rfloor> * Cursor_width s,
                 \<lfloor>real_of_int index / real_of_int (Cursor_width s)\<rfloor>))"

subsection \<open>Movement\<close>

definition up :: "cursor \<Rightarrow> real \<Rightarrow> cursor" where
  "up s y = s\<lparr>Cursor_y := Cursor_y s - \<lfloor>y\<rfloor>\<rparr>"

definition down :: "cursor \<Rightarrow> real \<Rightarrow> cursor" where
  "down s y = s\<lparr>Cursor_y := Cursor_y s + \<lfloor>y\<rfloor>\<rparr>"

definition right :: "cursor \<Rightarrow> real \<Rightarrow> cursor" where
  "right s x = s\<lparr>Cursor_x := Cursor_x s + \<lfloor>x\<rfloor>\<rparr>"

definition left :: "cursor \<Rightarrow> real \<Rightarrow> cursor" where
  "left s x = s\<lparr>Cursor_x := Cursor_x s - \<lfloor>x\<rfloor>\<rparr>"

definition moveBy :: "cursor \<Rightarrow> real \<Rightarrow> real \<Rightarrow> cursor" where
  "moveBy s x y =
     (let s1 = (if x < 0 then left s (- x) else s);
          s2 = (if x > 0 then right s1 x else s1);
          s3 = (if y < 0 then up s2 (- y) else s2)
      in if y > 0 then down s3 y else s3)"

definition moveTo :: "cursor \<Rightarrow> real \<Rightarrow> real \<Rightarrow> cursor" where
  "moveTo s x y = s\<lparr>Cursor_x := \<lfloor>x\<rfloor>, Cursor_y := \<lfloor>y\<rfloor>\<rparr>"

subsection \<open>Writing\<close>

text \<open>
  The body of the \<open>forEach\<close> in \<open>write\<close>, for one character; \<open>background\<close>, \<open>foreground\<close>
  and \<open>display\<close> are the constants bound before the loop. Inside the bounds the pointer
  is not negative.
\<close>

definition writeChar :: "rgb option \<Rightarrow> rgb option \<Rightarrow> display \<Rightarrow> cursor \<Rightarrow> char \<Rightarrow> cursor" where
  "writeChar background foreground display' s ch =
     (let x = Cursor_x s; y = Cursor_y s;
          pointer = getPointerFromXY s (Some x) (Some y);
          s1 = (if 0 \<le> x \<and> x < Cursor_width s \<and> 0 \<le> y \<and> y < Cursor_height s
                then s\<lparr>Cursor_terminal :=
                         arraySet (Cursor_terminal s) (nat pointer)
                           \<lparr>Cell_char = ch, Cell_x = x, Cell_y = y, Cell_background = background,
                            Cell_foreground = foreground, Cell_display = display'\<rparr>\<rparr>
                else s)
      in s1\<lparr>Cursor_x := Cursor_x s1 + 1\<rparr>)"

fun writeChars :: "rgb option \<Rightarrow> rgb option \<Rightarrow> display \<Rightarrow> cursor \<Rightarrow> string \<Rightarrow> cursor" where
  "writeChars background foreground display' s [] = s"
| "writeChars background foreground display' s (ch # data) =
     writeChars background foreground display' (writeChar background foreground display' s ch) data"

text \<open>The method \<open>write\<close>.\<close>

definition Cursor_write :: "cursor \<Rightarrow> string \<Rightarrow> cursor" where
  "Cursor_write s data =
     writeChars (Cursor_background s) (Cursor_foreground s) (Cursor_display s) s data"

subsection \<open>Flushing\<close>

text \<open>
  \<open>flush\<close>, with the encoder \<open>enc\<close> standing for \<open>Cell.prototype.toString\<close> (in the absent
  \<open>Cell.js\<close>) and the list of the strings written so far standing for \<open>process.stdout\<close>.
  \<open>filter\<close> keeps the cells whose string is not in the last frame, \<open>join('')\<close>
  concatenates their strings, and the new frame is the \<open>Set\<close> of the array that \<open>map\<close>
  returns, in which a hole stays a hole and is read as \<open>undefined\<close>.
\<close>

definition flush :: "(cell \<Rightarrow> string) \<Rightarrow> cursor \<times> string list \<Rightarrow> cursor \<times> string list" where
  "flush enc state =
     (case state of (s, stdout) \<Rightarrow>
        (s\<lparr>Cursor_lastFrame := set (map (map_option enc) (Cursor_terminal s))\<rparr>,
         stdout @ [concat (map enc (filter (\<lambda>item. Some (enc item) \<notin> Cursor_lastFrame s)
                                            (elements (Cursor_terminal s))))]))"

subsection \<open>Erasing\<close>

text \<open>The pairs \<open>(x, y)\<close> that the two nested loops of \<open>erase\<close> visit, in their order.\<close>

definition rectangle :: "int \<Rightarrow> int \<Rightarrow> int \<Rightarrow> int \<Rightarrow> (int \<times> int) list" where
  "rectangle x1 y1 x2 y2 = concat (map (\<lambda>y. map (\<lambda>x. (x, y)) [x1..x2]) [y1..y2])"

text \<open>
  The loop body \<open>this._terminal[this.getPointerFromXY(x, y)].setChar(' ')\<close> along a list
  of positions. Where the slot holds no cell the call of \<open>setChar\<close> on \<open>undefined\<close> raises
  a TypeError; the error carries the state as the loop left it.
\<close>

fun eraseCells :: "cursor \<Rightarrow> (int \<times> int) list \<Rightarrow> error \<times> cursor + cursor" where
  "eraseCells s [] = Inr s"
| "eraseCells s ((x, y) # ps) =
     (case arrayGet (Cursor_terminal s) (getPointerFromXY s (Some x) (Some y)) of
        None \<Rightarrow> Inl (TypeError, s)
      | Some c \<Rightarrow>
          eraseCells
            (s\<lparr>Cursor_terminal :=
                 (Cursor_terminal s)[nat (getPointerFromXY s (Some x) (Some y)) :=
                                       Some (setChar c CHR '' '')]\<rparr>)
            ps)"

definition erase :: "cursor \<Rightarrow> int \<Rightarrow> int \<Rightarrow> int \<Rightarrow> int \<Rightarrow> error \<times> cursor + cursor" where
  "erase s x1 y1 x2 y2 = eraseCells s (rectangle x1 y1 x2 y2)"

definition eraseToEnd :: "cursor \<Rightarrow> error \<times> cursor + cursor" where
  "eraseToEnd s = erase s (Cursor_x s) (Cursor_y s) (Cursor_width s - 1) (Cursor_y s)"

definition eraseToStart :: "cursor \<Rightarrow> error \<times> cursor + cursor" where
  "eraseToStart s = erase s 0 (Cursor_y s) (Cursor_x s) (Cursor_y s)"

definition eraseToDown :: "cursor \<Rightarrow> error \<times> cursor + cursor" where
  "eraseToDown s = erase s 0 (Cursor_y s) (Cursor_width s - 1) (Cursor_height s - 1)"

definition eraseToUp :: "cursor \<Rightarrow> error \<times> cursor + cursor" where
  "eraseToUp s = erase s 0 0 (Cursor_width s - 1) (Cursor_y s)"

definition eraseLine :: "cursor \<Rightarrow> error \<times> cursor + cursor" where
  "eraseLine s = erase s 0 (Cursor_y s) (Cursor_width s - 1) (Cursor_y s)"

definition eraseScreen :: "cursor \<Rightarrow> error \<times> cursor + cursor" where
  "eraseScreen s = erase s 0 0 (Cursor_width s - 1) (Cursor_height s - 1)"

section \<open>Notions used in the statements and proofs\<close>

text \<open>The two hexadecimal digits of a channel value between 0 and 255.\<close>

definition hex2 :: "int \<Rightarrow> string" where
  "hex2 n = [hexDigit (nat n div 16), hexDigit (nat n mod 16)]"

text \<open>
  The textual forms of a color, stated without the search of the regular expressions:
  \<open>rgb(r, g, b)\<close> with each of the three letters in either case and one to three decimal
  digits for each channel, and \<open>#RRGGBB\<close> with six hexadecimal digits, the letters in
  either case. A string contains a form when a part of it is one.
\<close>

definition rgbOpening :: "string \<Rightarrow> bool" where
  "rgbOpening h =
     (\<exists>c1 c2 c3. h = [c1, c2, c3, CHR ''(''] \<and> (c1 = CHR ''r'' \<or> c1 = CHR ''R'')
                 \<and> (c2 = CHR ''g'' \<or> c2 = CHR ''G'') \<and> (c3 = CHR ''b'' \<or> c3 = CHR ''B''))"

definition hexFigure :: "char \<Rightarrow> bool" where
  "hexFigure c = (c \<in> set ''0123456789ABCDEFabcdef'')"

definition digits13 :: "string \<Rightarrow> bool" where
  "digits13 d = (1 \<le> length d \<and> length d \<le> 3 \<and> list_all isDigit d)"

definition isRgbForm :: "string \<Rightarrow> bool" where
  "isRgbForm s =
     (\<exists>h r g b. s = h @ r @ '', '' @ g @ '', '' @ b @ '')'' \<and> rgbOpening h
                \<and> digits13 r \<and> digits13 g \<and> digits13 b)"

definition isHexForm :: "string \<Rightarrow> bool" where
  "isHexForm s = (\<exists>h. s = CHR ''#'' # h \<and> length h = 6 \<and> list_all hexFigure h)"

definition containsForm :: "(string \<Rightarrow> bool) \<Rightarrow> string \<Rightarrow> bool" where
  "containsForm P s = (\<exists>pre mid post. s = pre @ mid @ post \<and> P mid)"

text \<open>
  A string names a color when its upper-case form, the one of \<open>String.prototype.toUpperCase\<close>,
  is a key of the dictionary.
\<close>

definition namesColor :: "string \<Rightarrow> bool" where
  "namesColor s = (\<exists>k\<in>fst ` set COLORS. toUpperCase s = map of_char k)"

text \<open>
  The arguments that \<open>create\<close> takes according to the specification: a color name, a
  string that is one of the two textual forms, an object with all three properties.
\<close>

definition claimedAccepted :: "colorArg \<Rightarrow> bool" where
  "claimedAccepted color =
     (case color of
        ArgString s \<Rightarrow> namesColor s \<or> isRgbForm s \<or> isHexForm s
      | ArgObject r g b \<Rightarrow> r \<noteq> None \<and> g \<noteq> None \<and> b \<noteq> None
      | _ \<Rightarrow> False)"

text \<open>
  The arguments that the constructor is proved to take: a string is also taken when it
  contains a textual form. An object with some but not all of the three properties is
  set apart.
\<close>

definition accepted :: "colorArg \<Rightarrow> bool" where
  "accepted color =
     (case color of
        ArgString s \<Rightarrow> namesColor s \<or> containsForm isRgbForm s \<or> containsForm isHexForm s
      | ArgObject r g b \<Rightarrow> r \<noteq> None \<and> g \<noteq> None \<and> b \<noteq> None
      | _ \<Rightarrow> False)"

definition partialObject :: "colorArg \<Rightarrow> bool" where
  "partialObject color =
     (case color of
        ArgObject r g b \<Rightarrow> (r \<noteq> None \<or> g \<noteq> None \<or> b \<noteq> None) \<and> (r = None \<or> g = None \<or> b = None)
      | _ \<Rightarrow> False)"

text \<open>A position inside the grid.\<close>

definition inBounds :: "cursor \<Rightarrow> int \<Rightarrow> int \<Rightarrow> bool" where
  "inBounds s x y = (0 \<le> x \<and> x < Cursor_width s \<and> 0 \<le> y \<and> y < Cursor_height s)"

text \<open>The cell that the pen of \<open>s\<close> draws for a character at a position.\<close>

definition penCell :: "cursor \<Rightarrow> char \<Rightarrow> int \<Rightarrow> int \<Rightarrow> cell" where
  "penCell s ch x y =
     \<lparr>Cell_char = ch, Cell_x = x, Cell_y = y, Cell_background = Cursor_background s,
      Cell_foreground = Cursor_foreground s, Cell_display = Cursor_display s\<rparr>"

text \<open>The index of a position in the buffer, and the cell stored there.\<close>

definition pointerOf :: "cursor \<Rightarrow> int \<times> int \<Rightarrow> int" where
  "pointerOf s p = getPointerFromXY s (Some (fst p)) (Some (snd p))"

definition cellAt :: "cursor \<Rightarrow> int \<times> int \<Rightarrow> cell option" where
  "cellAt s p = arrayGet (Cursor_terminal s) (pointerOf s p)"

text \<open>The cells that the buffer holds, slot after slot in index (row-major) order.\<close>

definition storedCells :: "cursor \<Rightarrow> cell list" where
  "storedCells s =
     concat (map (\<lambda>i. case arrayGet (Cursor_terminal s) (int i) of None \<Rightarrow> [] | Some c \<Rightarrow> [c])
                 [0..<length (Cursor_terminal s)])"

text \<open>
  The snapshot of the last frame as the specification has it, a set of strings: the
  strings that are members of \<open>_lastFrame\<close>.
\<close>

definition snapshot :: "cursor \<Rightarrow> string set" where
  "snapshot s = {e. Some e \<in> Cursor_lastFrame s}"

text \<open>
  For the examples: a cursor at the origin over an empty array, with an unset pen and an
  empty last frame, and an encoder that writes the position and the character.
\<close>

definition emptyCursor :: "int \<Rightarrow> int \<Rightarrow> cursor" where
  "emptyCursor w h =
     \<lparr>Cursor_terminal = [], Cursor_x = 0, Cursor_y = 0, Cursor_background = None,
      Cursor_foreground = None, Cursor_display = DisplayFalse, Cursor_width = w,
      Cursor_height = h, Cursor_lastFrame = {}\<rparr>"

definition plainEncoder :: "cell \<Rightarrow> string" where
  "plainEncoder c =
     digits16 (nat (Cell_y c)) @ '';'' @ digits16 (nat (Cell_x c)) @ ''H'' @ [Cell_char c]"

section \<open>Properties of the color model\<close>

subsection \<open>Clamping\<close>

text \<open>
  Claim C8. For every numeric channel input outside the range from 0 to 255 the setters
  \<open>setR\<close>, \<open>setG\<close> and \<open>setB\<close> store the nearest boundary: 0 for a negative input (the
  negative infinity included), 255 for an input above 255 (the positive infinity
  included); an input inside the range is stored as it is. The setters are total: they
  return the updated color and raise nothing.
\<close>

theorem channel_setters_clamp:
  "(v < 0 \<longrightarrow> Color_r (setR c (Fin v)) = Fin 0 \<and> Color_g (setG c (Fin v)) = Fin 0
                \<and> Color_b (setB c (Fin v)) = Fin 0)
   \<and> (255 < v \<longrightarrow> Color_r (setR c (Fin v)) = Fin 255 \<and> Color_g (setG c (Fin v)) = Fin 255
                \<and> Color_b (setB c (Fin v)) = Fin 255)
   \<and> (0 \<le> v \<and> v \<le> 255 \<longrightarrow> Color_r (setR c (Fin v)) = Fin v \<and> Color_g (setG c (Fin v)) = Fin v
                \<and> Color_b (setB c (Fin v)) = Fin v)
   \<and> Color_r (setR c NegInfinity) = Fin 0 \<and> Color_g (setG c NegInfinity) = Fin 0
   \<and> Color_b (setB c NegInfinity) = Fin 0
   \<and> Color_r (setR c PosInfinity) = Fin 255 \<and> Color_g (setG c PosInfinity) = Fin 255
   \<and> Color_b (setB c PosInfinity) = Fin 255"
  by (simp add: setR_def setG_def setB_def)

theorem channel_setters_clamp_witness:
  "Color_r (setR \<lparr>Color_r = Fin 7, Color_g = Fin 8, Color_b = Fin 9\<rparr> (Fin (- 5))) = Fin 0
   \<and> Color_g (setG \<lparr>Color_r = Fin 7, Color_g = Fin 8, Color_b = Fin 9\<rparr> (Fin 300)) = Fin 255
   \<and> Color_b (setB \<lparr>Color_r = Fin 7, Color_g = Fin 8, Color_b = Fin 9\<rparr> (Fin (25 / 2))) = Fin (25 / 2)"
  using channel_setters_clamp [of "- 5" "\<lparr>Color_r = Fin 7, Color_g = Fin 8, Color_b = Fin 9\<rparr>"]
        channel_setters_clamp [of 300 "\<lparr>Color_r = Fin 7, Color_g = Fin 8, Color_b = Fin 9\<rparr>"]
        channel_setters_clamp [of "25 / 2" "\<lparr>Color_r = Fin 7, Color_g = Fin 8, Color_b = Fin 9\<rparr>"]
  by simp

subsection \<open>Characters\<close>

text \<open>The canonical form by the code of the character, and the characters it identifies.\<close>

lemma canonicalize_code:
  "canonicalize c =
     (if 97 \<le> (of_char c :: nat) \<and> (of_char c :: nat) \<le> 122 then of_char c - 32
      else if (of_char c :: nat) = 181 then 924
      else if (224 \<le> (of_char c :: nat) \<and> (of_char c :: nat) \<le> 246)
              \<or> (248 \<le> (of_char c :: nat) \<and> (of_char c :: nat) \<le> 254) then of_char c - 32
      else if (of_char c :: nat) = 255 then 376
      else of_char c)"
  by (simp add: canonicalize_def upperUnits_def Let_def) arith

lemma of_char_code: "((of_char c :: nat) = of_char d) = (c = d)"
  by simp

lemma canonicalize_r: "(canonicalize c = canonicalize CHR ''r'') = (c = CHR ''r'' \<or> c = CHR ''R'')"
proof -
  have "(canonicalize c = 82) = ((of_char c :: nat) = 114 \<or> (of_char c :: nat) = 82)"
    unfolding canonicalize_code by (simp split: if_splits) arith
  moreover have "((of_char c :: nat) = 114) = (c = CHR ''r'')" "((of_char c :: nat) = 82) = (c = CHR ''R'')"
    using of_char_code [of c "CHR ''r''"] of_char_code [of c "CHR ''R''"] by simp_all
  moreover have "canonicalize CHR ''r'' = 82" by (simp add: canonicalize_code)
  ultimately show ?thesis by simp
qed

lemma canonicalize_g: "(canonicalize c = canonicalize CHR ''g'') = (c = CHR ''g'' \<or> c = CHR ''G'')"
proof -
  have "(canonicalize c = 71) = ((of_char c :: nat) = 103 \<or> (of_char c :: nat) = 71)"
    unfolding canonicalize_code by (simp split: if_splits) arith
  moreover have "((of_char c :: nat) = 103) = (c = CHR ''g'')" "((of_char c :: nat) = 71) = (c = CHR ''G'')"
    using of_char_code [of c "CHR ''g''"] of_char_code [of c "CHR ''G''"] by simp_all
  moreover have "canonicalize CHR ''g'' = 71" by (simp add: canonicalize_code)
  ultimately show ?thesis by simp
qed

lemma canonicalize_b: "(canonicalize c = canonicalize CHR ''b'') = (c = CHR ''b'' \<or> c = CHR ''B'')"
proof -
  have "(canonicalize c = 66) = ((of_char c :: nat) = 98 \<or> (of_char c :: nat) = 66)"
    unfolding canonicalize_code by (simp split: if_splits) arith
  moreover have "((of_char c :: nat) = 98) = (c = CHR ''b'')" "((of_char c :: nat) = 66) = (c = CHR ''B'')"
    using of_char_code [of c "CHR ''b''"] of_char_code [of c "CHR ''B''"] by simp_all
  moreover have "canonicalize CHR ''b'' = 66" by (simp add: canonicalize_code)
  ultimately show ?thesis by simp
qed

lemma canonicalize_paren: "(canonicalize c = canonicalize CHR ''('') = (c = CHR ''('')"
proof -
  have "(canonicalize c = 40) = ((of_char c :: nat) = 40)"
    unfolding canonicalize_code by (simp split: if_splits) arith
  moreover have "((of_char c :: nat) = 40) = (c = CHR ''('')"
    using of_char_code [of c "CHR ''(''"] by simp
  moreover have "canonicalize CHR ''('' = 40" by (simp add: canonicalize_code)
  ultimately show ?thesis by simp
qed

text \<open>The class \<open>[0-9A-F]\<close> under the \<open>i\<close> flag holds the hexadecimal digits of both cases.\<close>

lemma isRadix16Digit_hexFigure: "isRadix16Digit c = hexFigure c"
proof -
  have inj: "inj (of_char :: char \<Rightarrow> nat)" by (rule injI) simp
  have "hexFigure c = ((of_char c :: nat) \<in> of_char ` set ''0123456789ABCDEFabcdef'')"
    unfolding hexFigure_def by (rule inj_image_mem_iff [OF inj, symmetric])
  also have "\<dots> = ((of_char c :: nat) \<in> {48, 49, 50, 51, 52, 53, 54, 55, 56, 57, 65, 66, 67, 68,
                                         69, 70, 97, 98, 99, 100, 101, 102})"
    by simp
  also have "\<dots> = isRadix16Digit c"
    unfolding isRadix16Digit_def Let_def by (simp only: insert_iff empty_iff) arith
  finally show ?thesis by simp
qed

lemma isHexDigit_radix: "isHexDigit c = isRadix16Digit c"
proof -
  let ?u = "of_char c :: nat"
  have cls: "set (map canonicalize ''0123456789ABCDEF'')
               = {48, 49, 50, 51, 52, 53, 54, 55, 56, 57, 65, 66, 67, 68, 69, 70}"
    by (simp add: canonicalize_code)
  have rng: "(u \<in> {48, 49, 50, 51, 52, 53, 54, 55, 56, 57, 65, 66, 67, 68, 69, 70})
               = ((48 \<le> u \<and> u \<le> 57) \<or> (65 \<le> u \<and> u \<le> 70))" for u :: nat
    by (simp only: insert_iff empty_iff) arith
  have "((48 \<le> canonicalize c \<and> canonicalize c \<le> 57) \<or> (65 \<le> canonicalize c \<and> canonicalize c \<le> 70))
        = ((48 \<le> ?u \<and> ?u \<le> 57) \<or> (65 \<le> ?u \<and> ?u \<le> 70) \<or> (97 \<le> ?u \<and> ?u \<le> 102))"
    unfolding canonicalize_code by (simp split: if_splits) arith
  then show ?thesis
    unfolding isHexDigit_def cls rng isRadix16Digit_def Let_def .
qed

lemma isHexDigit_hexFigure: "isHexDigit = hexFigure"
  by (simp add: fun_eq_iff isHexDigit_radix isRadix16Digit_hexFigure)

subsection \<open>Hexadecimal digits\<close>

lemma hexDigit_ok:
  "d < 16 \<Longrightarrow> isHexDigit (hexDigit d) \<and> isRadix16Digit (hexDigit d) \<and> hexValue (hexDigit d) = d"
proof -
  assume "d < 16"
  then have "d \<in> set [0..<16]" by simp
  moreover have "list_all (\<lambda>d. isRadix16Digit (hexDigit d) \<and> hexValue (hexDigit d) = d) [0..<16]"
    by code_simp
  ultimately show ?thesis unfolding list_all_iff isHexDigit_radix by blast
qed

lemma hexDigit_not_paren: "hexDigit d \<noteq> CHR ''(''"
proof -
  have "d mod 16 \<in> set [0..<16]" by simp
  moreover have "list_all (\<lambda>d. hexDigit d \<noteq> CHR ''('') [0..<16]" by code_simp
  ultimately have "hexDigit (d mod 16) \<noteq> CHR ''(''" unfolding list_all_iff by blast
  then show ?thesis by (simp add: hexDigit_def)
qed

lemma pad2_digits16:
  assumes "n < 256"
  shows "pad2 (digits16 n) = [hexDigit (n div 16), hexDigit (n mod 16)]"
proof (cases "n < 16")
  case True
  then show ?thesis by (simp add: digits16.simps pad2_def hexDigit_def)
next
  case False
  with assms have "n div 16 < 16" by simp
  with False show ?thesis
    by (simp add: digits16.simps [of n] digits16.simps [of "n div 16"] pad2_def)
qed

lemma parseInt16_pair:
  assumes "a < 16" "b < 16"
  shows "parseInt16 [hexDigit a, hexDigit b] = Fin (real (16 * a + b))"
  using hexDigit_ok [OF assms(1)] hexDigit_ok [OF assms(2)]
  by (simp add: parseInt16_def)

lemma hex2_ok:
  assumes "0 \<le> n" "n \<le> 255"
  shows "pad2 (toString16 (IntVal n)) = hex2 n" "length (hex2 n) = 2" "list_all isHexDigit (hex2 n)"
    "parseInt16 (hex2 n) = Fin (real_of_int n)"
proof -
  from assms have lt: "nat n < 256" by linarith
  then have d: "nat n div 16 < 16" "nat n mod 16 < 16" by simp_all
  from assms lt show "pad2 (toString16 (IntVal n)) = hex2 n"
    by (simp add: pad2_digits16 hex2_def)
  show "length (hex2 n) = 2" by (simp add: hex2_def)
  from d show "list_all isHexDigit (hex2 n)" by (simp add: hex2_def hexDigit_ok)
  have "real (16 * (nat n div 16) + nat n mod 16) = real (nat n)" by simp
  also from assms have "\<dots> = real_of_int n" by simp
  finally show "parseInt16 (hex2 n) = Fin (real_of_int n)"
    unfolding hex2_def parseInt16_pair [OF d] by simp
qed

subsection \<open>Where the patterns match\<close>

lemma HEX_REGEX_match_here:
  assumes "length h1 = 2" "length h2 = 2" "length h3 = 2"
    and "list_all isHexDigit (h1 @ h2 @ h3)"
  shows "HEX_REGEX_match (CHR ''#'' # h1 @ h2 @ h3) = Some (h1, h2, h3)"
  using assms by simp

text \<open>The four characters that open the pattern: \<open>rgb(\<close> with each letter in either case.\<close>

lemma rgbOpening_iff: "(map canonicalize h = map canonicalize ''rgb('') = rgbOpening h"
proof
  assume eq: "map canonicalize h = map canonicalize ''rgb(''"
  then have "length (map canonicalize h) = length (map canonicalize ''rgb('')" by (rule arg_cong)
  then have "length h = 4" by simp
  then obtain c1 c2 c3 c4 where h: "h = [c1, c2, c3, c4]"
    by (auto simp: length_Suc_conv numeral_eq_Suc)
  with eq have "canonicalize c1 = canonicalize CHR ''r''" "canonicalize c2 = canonicalize CHR ''g''"
    "canonicalize c3 = canonicalize CHR ''b''" "canonicalize c4 = canonicalize CHR ''(''"
    by simp_all
  then show "rgbOpening h"
    unfolding canonicalize_r canonicalize_g canonicalize_b canonicalize_paren rgbOpening_def h
    by blast
next
  assume "rgbOpening h"
  then obtain c1 c2 c3 where "h = [c1, c2, c3, CHR ''('']"
    "canonicalize c1 = canonicalize CHR ''r''" "canonicalize c2 = canonicalize CHR ''g''"
    "canonicalize c3 = canonicalize CHR ''b''"
    unfolding rgbOpening_def canonicalize_r canonicalize_g canonicalize_b by blast
  then show "map canonicalize h = map canonicalize ''rgb(''" by simp
qed

lemma rgbOpening_paren: "rgbOpening h \<Longrightarrow> CHR ''('' \<in> set h"
  by (auto simp: rgbOpening_def)

lemma RGB_REGEX_match_no_paren: "CHR ''('' \<notin> set s \<Longrightarrow> RGB_REGEX_match s = None"
proof (induction s)
  case Nil
  then show ?case by simp
next
  case (Cons c cs)
  have "map canonicalize (take 4 (c # cs)) \<noteq> map canonicalize ''rgb(''"
  proof
    assume "map canonicalize (take 4 (c # cs)) = map canonicalize ''rgb(''"
    then have "rgbOpening (take 4 (c # cs))" unfolding rgbOpening_iff .
    then have "CHR ''('' \<in> set (take 4 (c # cs))" by (rule rgbOpening_paren)
    then have "CHR ''('' \<in> set (c # cs)" by (rule in_set_takeD)
    with Cons.prems show False by simp
  qed
  then have "RGB_REGEX_here (c # cs) = None" unfolding RGB_REGEX_here_def by (simp only: if_False)
  with Cons show ?case by simp
qed

lemma RGB_REGEX_match_object: "RGB_REGEX_match ''[object Object]'' = None"
  by (rule RGB_REGEX_match_no_paren) simp

lemma HEX_REGEX_match_object: "HEX_REGEX_match ''[object Object]'' = None"
  by simp

text \<open>On an object the three tests of the constructor fail and its last part runs.\<close>

lemma Color_constructor_object: "Color_constructor (ArgObject r g b) = Color_ofObject r g b"
  by (simp add: Color_constructor_def isNamed_def isRgb_def isHex_def RGB_REGEX_match_object
      HEX_REGEX_match_object del: RGB_REGEX_match.simps HEX_REGEX_match.simps)

lemma COLORS_keys_plain: "list_all (\<lambda>(k, v). CHR ''#'' \<notin> set k) COLORS"
  by code_simp

lemma COLORS_get_None: "(COLORS_get key = None) = (\<forall>k\<in>fst ` set COLORS. key \<noteq> map of_char k)"
  unfolding COLORS_get_def map_of_eq_None_iff by force

lemma COLORS_get_Some: "COLORS_get key = Some h \<Longrightarrow> \<exists>k. (k, h) \<in> set COLORS \<and> key = map of_char k"
  unfolding COLORS_get_def by (drule map_of_SomeD) auto

lemma isNamed_string: "isNamed (ArgString s) = namesColor s"
  unfolding isNamed_def namesColor_def by (simp add: COLORS_get_None)

lemma hash_in_upper: "CHR ''#'' \<in> set s \<Longrightarrow> 35 \<in> set (toUpperCase s)"
proof -
  assume "CHR ''#'' \<in> set s"
  moreover have "35 \<in> set (upperUnits CHR ''#'')" by (simp add: upperUnits_def)
  ultimately show ?thesis unfolding toUpperCase_def by auto
qed

lemma not_namesColor_hash:
  assumes "CHR ''#'' \<in> set s"
  shows "\<not> namesColor s"
proof
  assume "namesColor s"
  then obtain k where k: "k \<in> fst ` set COLORS" "toUpperCase s = map of_char k"
    unfolding namesColor_def by blast
  from hash_in_upper [OF assms] k(2) have "(35::nat) \<in> set (map of_char k)" by simp
  then obtain c where c: "c \<in> set k" "(of_char c :: nat) = 35" by auto
  from c(2) of_char_code [of c "CHR ''#''"] have "c = CHR ''#''" by simp
  with c(1) k(1) COLORS_keys_plain show False unfolding list_all_iff by force
qed

lemma not_named_hash: "\<not> isNamed (ArgString (CHR ''#'' # t))"
  by (simp add: isNamed_string not_namesColor_hash)

subsection \<open>From channels to hexadecimal text and back\<close>

text \<open>
  Claim C7. For all integers \<open>r\<close>, \<open>g\<close>, \<open>b\<close> between 0 and 255, building a Color from the
  object \<open>{r, g, b}\<close> succeeds, and parsing its \<open>toHex()\<close> string again, by \<open>fromHex\<close> or by
  \<open>create\<close>, succeeds with a Color whose \<open>toRgb()\<close> is \<open>{r, g, b}\<close>.
\<close>

theorem hex_roundtrip:
  assumes "0 \<le> r \<and> r \<le> 255" and "0 \<le> g \<and> g \<le> 255" and "0 \<le> b \<and> b \<le> 255"
  shows "\<exists>c c'. Color_create (ArgObject (Some (Fin (real_of_int r))) (Some (Fin (real_of_int g)))
                                  (Some (Fin (real_of_int b)))) = Inr c
           \<and> fromHex (toHex c) = Inr c'
           \<and> Color_create (ArgString (toHex c)) = Inr c'
           \<and> toRgb c' = \<lparr>rgb_r = IntVal r, rgb_g = IntVal g, rgb_b = IntVal b\<rparr>"
proof -
  define c where "c = \<lparr>Color_r = Fin (real_of_int r), Color_g = Fin (real_of_int g),
                        Color_b = Fin (real_of_int b)\<rparr>"
  have obj: "Color_ofObject (Some (Fin (real_of_int r))) (Some (Fin (real_of_int g)))
               (Some (Fin (real_of_int b))) = Inr c"
    using assms by (simp add: Color_ofObject_def setR_def setG_def setB_def property_def c_def)
  then have create: "Color_create (ArgObject (Some (Fin (real_of_int r))) (Some (Fin (real_of_int g)))
                                  (Some (Fin (real_of_int b)))) = Inr c"
    by (simp add: Color_create_def Color_constructor_object)
  have rgb: "toRgb c = \<lparr>rgb_r = IntVal r, rgb_g = IntVal g, rgb_b = IntVal b\<rparr>"
    by (simp add: toRgb_def getR_def getG_def getB_def c_def)
  have hex: "toHex c = CHR ''#'' # hex2 r @ hex2 g @ hex2 b"
    using assms
    by (simp add: toHex_def getR_def getG_def getB_def c_def hex2_ok(1) del: toString16.simps)
  have m: "HEX_REGEX_match (toHex c) = Some (hex2 r, hex2 g, hex2 b)"
    unfolding hex using assms by (intro HEX_REGEX_match_here) (simp_all add: hex2_ok)
  have again: "fromHex (toHex c) = Inr c"
    using assms obj by (simp add: fromHex_def m hex2_ok(4))
  have "\<not> isRgb (ArgString (toHex c))"
  proof -
    have "CHR ''('' \<notin> set (toHex c)"
      unfolding hex by (simp add: hex2_def hexDigit_not_paren [symmetric])
    then show ?thesis by (simp add: isRgb_def RGB_REGEX_match_no_paren)
  qed
  moreover have "\<not> isNamed (ArgString (toHex c))" unfolding hex by (rule not_named_hash)
  moreover have "isHex (ArgString (toHex c))" by (simp add: isHex_def m)
  ultimately have "Color_create (ArgString (toHex c)) = Inr c"
    using again by (simp add: Color_create_def Color_constructor_def)
  with create again rgb show ?thesis by blast
qed

theorem hex_roundtrip_witness:
  "\<exists>c c'. Color_create (ArgObject (Some (Fin 18)) (Some (Fin 0)) (Some (Fin 255))) = Inr c
         \<and> fromHex (toHex c) = Inr c'
         \<and> Color_create (ArgString (toHex c)) = Inr c'
         \<and> toRgb c' = \<lparr>rgb_r = IntVal 18, rgb_g = IntVal 0, rgb_b = IntVal 255\<rparr>"
  using hex_roundtrip [of 18 0 255] by simp

subsection \<open>The patterns and the textual forms\<close>

lemma HEX_REGEX_match_contains: "HEX_REGEX_match s \<noteq> None \<Longrightarrow> containsForm isHexForm s"
proof (induction s)
  case Nil
  then show ?case by simp
next
  case (Cons c cs)
  show ?case
  proof (cases "c = CHR ''#'' \<and> 6 \<le> length cs \<and> list_all isHexDigit (take 6 cs)")
    case True
    then have "isHexForm (c # take 6 cs)" by (simp add: isHexForm_def isHexDigit_hexFigure)
    moreover have "c # cs = [] @ (c # take 6 cs) @ drop 6 cs" by simp
    ultimately show ?thesis unfolding containsForm_def by blast
  next
    case False
    with Cons.prems have "HEX_REGEX_match cs \<noteq> None" by auto
    from Cons.IH [OF this] obtain pre mid post where "cs = pre @ mid @ post" "isHexForm mid"
      unfolding containsForm_def by blast
    then have "c # cs = (c # pre) @ mid @ post" by simp
    with \<open>isHexForm mid\<close> show ?thesis unfolding containsForm_def by blast
  qed
qed

lemma HEX_REGEX_match_prefix:
  "isHexForm mid \<Longrightarrow> HEX_REGEX_match (pre @ mid @ post) \<noteq> None"
proof (induction pre)
  case Nil
  then obtain h where "mid = CHR ''#'' # h" "length h = 6" "list_all isHexDigit h"
    unfolding isHexForm_def isHexDigit_hexFigure by blast
  then show ?case by simp
next
  case (Cons p pre)
  then show ?case by simp
qed

lemma HEX_REGEX_match_iff: "(HEX_REGEX_match s \<noteq> None) = containsForm isHexForm s"
  using HEX_REGEX_match_contains HEX_REGEX_match_prefix unfolding containsForm_def by blast

lemma digitsThen_Some:
  assumes "digitsThen lit s = Some (d, rest)"
  shows "digits13 d \<and> s = d @ lit @ rest"
proof -
  let ?d = "takeWhile isDigit s" and ?r = "dropWhile isDigit s"
  from assms have c: "1 \<le> length ?d" "length ?d \<le> 3" "take (length lit) ?r = lit"
    and d: "d = ?d" and r: "rest = drop (length lit) ?r"
    by (simp_all add: digitsThen_def Let_def split: if_splits)
  have "list_all isDigit ?d" by (simp add: list_all_iff) (meson set_takeWhileD)
  with c d have "digits13 d" by (simp add: digits13_def)
  moreover have "?r = lit @ rest" using c(3) r by (metis append_take_drop_id)
  then have "s = d @ lit @ rest" using d by (metis takeWhile_dropWhile_id)
  ultimately show ?thesis by blast
qed

lemma digitsThen_complete:
  assumes "digits13 d" and "lit \<noteq> []" and "\<not> isDigit (hd lit)"
  shows "digitsThen lit (d @ lit @ rest) = Some (d, rest)"
proof -
  from assms(2) obtain l ls where lit: "lit = l # ls" by (cases lit) auto
  with assms(3) have l: "\<not> isDigit l" by simp
  from assms(1) have all: "\<forall>x\<in>set d. isDigit x" by (simp add: digits13_def list_all_iff)
  have t: "takeWhile isDigit (d @ lit @ rest) = d"
    using all l by (simp add: lit takeWhile_append2)
  have dr: "dropWhile isDigit (d @ lit @ rest) = lit @ rest"
    using all l by (simp add: lit dropWhile_append2)
  show ?thesis
    using assms(1) by (simp add: digitsThen_def Let_def t dr digits13_def)
qed

lemma rgbOpening_length: "rgbOpening h \<Longrightarrow> length h = 4"
  by (auto simp: rgbOpening_def)

lemma RGB_REGEX_here_Some:
  assumes "RGB_REGEX_here s = Some (r, g, b)"
  shows "\<exists>mid post. s = mid @ post \<and> isRgbForm mid"
proof -
  have eq: "map canonicalize (take 4 s) = map canonicalize ''rgb(''"
  proof (rule ccontr)
    assume "map canonicalize (take 4 s) \<noteq> map canonicalize ''rgb(''"
    then have "RGB_REGEX_here s = None" unfolding RGB_REGEX_here_def by (simp only: if_False)
    with assms show False by simp
  qed
  then have up: "rgbOpening (take 4 s)" unfolding rgbOpening_iff .
  from assms eq obtain s1 s2 s3 where
    "digitsThen '', '' (drop 4 s) = Some (r, s1)"
    "digitsThen '', '' s1 = Some (g, s2)"
    "digitsThen '')'' s2 = Some (b, s3)"
    by (auto simp: RGB_REGEX_here_def split: option.splits)
  from this [THEN digitsThen_Some]
  have d: "digits13 r" "drop 4 s = r @ '', '' @ s1" "digits13 g" "s1 = g @ '', '' @ s2"
    "digits13 b" "s2 = b @ '')'' @ s3"
    by blast+
  have "s = take 4 s @ drop 4 s" by simp
  also have "\<dots> = (take 4 s @ r @ '', '' @ g @ '', '' @ b @ '')'') @ s3"
    using d(2,4,6) by simp
  finally have "s = (take 4 s @ r @ '', '' @ g @ '', '' @ b @ '')'') @ s3" .
  moreover have "isRgbForm (take 4 s @ r @ '', '' @ g @ '', '' @ b @ '')'')"
    unfolding isRgbForm_def using up d(1,3,5) by blast
  ultimately show ?thesis by blast
qed

lemma RGB_REGEX_here_complete:
  assumes "isRgbForm mid"
  shows "RGB_REGEX_here (mid @ post) \<noteq> None"
proof -
  from assms obtain h r g b where mid: "mid = h @ r @ '', '' @ g @ '', '' @ b @ '')''"
    and up: "rgbOpening h" and d: "digits13 r" "digits13 g" "digits13 b"
    unfolding isRgbForm_def by blast
  from rgbOpening_length [OF up] have len: "length h = 4" .
  from up have eq: "map canonicalize h = map canonicalize ''rgb(''" unfolding rgbOpening_iff .
  have nd: "\<not> isDigit (hd '', '')" "\<not> isDigit (hd '')'')" by (simp_all add: isDigit_def)
  have t: "take 4 (mid @ post) = h" and dr: "drop 4 (mid @ post) = r @ '', '' @ (g @ '', '' @ (b @ '')'' @ post))"
    using len by (simp_all add: mid)
  have 1: "digitsThen '', '' (drop 4 (mid @ post)) = Some (r, g @ '', '' @ (b @ '')'' @ post))"
    unfolding dr using d(1) nd(1) by (intro digitsThen_complete) simp_all
  have 2: "digitsThen '', '' (g @ '', '' @ (b @ '')'' @ post)) = Some (g, b @ '')'' @ post)"
    using d(2) nd(1) by (intro digitsThen_complete) simp_all
  have 3: "digitsThen '')'' (b @ '')'' @ post) = Some (b, post)"
    using d(3) nd(2) by (intro digitsThen_complete) simp_all
  have "RGB_REGEX_here (mid @ post) = Some (r, g, b)"
    unfolding RGB_REGEX_here_def t eq 1
    by (simp only: option.case prod.case 2 3) simp
  then show ?thesis by simp
qed

lemma RGB_REGEX_match_contains: "RGB_REGEX_match s \<noteq> None \<Longrightarrow> containsForm isRgbForm s"
proof (induction s)
  case Nil
  then show ?case by simp
next
  case (Cons c cs)
  show ?case
  proof (cases "RGB_REGEX_here (c # cs)")
    case (Some m)
    obtain r g b where "m = (r, g, b)" by (cases m)
    with Some RGB_REGEX_here_Some obtain mid post where "c # cs = [] @ mid @ post" "isRgbForm mid"
      by (metis append_Nil)
    then show ?thesis unfolding containsForm_def by blast
  next
    case None
    with Cons.prems have "RGB_REGEX_match cs \<noteq> None" by simp
    from Cons.IH [OF this] obtain pre mid post where "cs = pre @ mid @ post" "isRgbForm mid"
      unfolding containsForm_def by blast
    then have "c # cs = (c # pre) @ mid @ post" by simp
    with \<open>isRgbForm mid\<close> show ?thesis unfolding containsForm_def by blast
  qed
qed

lemma isRgbForm_nonempty: "isRgbForm mid \<Longrightarrow> mid \<noteq> []"
  by (auto simp: isRgbForm_def)

lemma RGB_REGEX_match_prefix:
  "isRgbForm mid \<Longrightarrow> RGB_REGEX_match (pre @ mid @ post) \<noteq> None"
proof (induction pre)
  case Nil
  from isRgbForm_nonempty [OF Nil] obtain c cs where "mid @ post = c # cs"
    by (cases mid) auto
  moreover from RGB_REGEX_here_complete [OF Nil] have "RGB_REGEX_here (mid @ post) \<noteq> None" .
  ultimately show ?case by auto
next
  case (Cons p pre)
  then show ?case by (simp split: option.splits)
qed

lemma RGB_REGEX_match_iff: "(RGB_REGEX_match s \<noteq> None) = containsForm isRgbForm s"
  using RGB_REGEX_match_contains RGB_REGEX_match_prefix unfolding containsForm_def by blast

subsection \<open>Which arguments the constructor takes\<close>

lemma COLORS_values_form:
  "list_all (\<lambda>(k, v). length v = 7 \<and> hd v = CHR ''#'' \<and> list_all isRadix16Digit (tl v)) COLORS"
  by code_simp

lemma COLORS_values: "list_all (\<lambda>(k, v). HEX_REGEX_match v \<noteq> None) COLORS"
proof -
  have "HEX_REGEX_match v \<noteq> None" if "(k, v) \<in> set COLORS" for k v
  proof -
    from that COLORS_values_form
    have v: "length v = 7" "hd v = CHR ''#''" "list_all isRadix16Digit (tl v)"
      unfolding list_all_iff by auto
    from v(1) have "v \<noteq> []" by auto
    with v(2) have "v = CHR ''#'' # tl v" by (cases v) simp_all
    moreover from v(1) have "length (tl v) = 6" by simp
    moreover from v(3) have "list_all hexFigure (tl v)"
      by (simp add: list_all_iff isRadix16Digit_hexFigure)
    ultimately have "isHexForm v" unfolding isHexForm_def by blast
    from HEX_REGEX_match_prefix [OF this, of "[]" "[]"] show ?thesis by simp
  qed
  then show ?thesis unfolding list_all_iff by auto
qed

lemma Color_ofObject_Some: "\<exists>c. Color_ofObject (Some r) (Some g) (Some b) = Inr c"
  by (simp add: Color_ofObject_def)

lemma fromHex_ok: "HEX_REGEX_match h \<noteq> None \<Longrightarrow> \<exists>c. fromHex h = Inr c"
  by (auto simp: fromHex_def Color_ofObject_Some)

lemma fromRgb_ok: "RGB_REGEX_match s \<noteq> None \<Longrightarrow> \<exists>c. fromRgb s = Inr c"
  by (auto simp: fromRgb_def Color_ofObject_Some)

lemma named_fromHex:
  assumes "isNamed (ArgString s)"
  shows "\<exists>c. fromHex (case COLORS_get (toUpperCase s) of Some h \<Rightarrow> h | None \<Rightarrow> []) = Inr c"
proof -
  from assms obtain h where h: "COLORS_get (toUpperCase s) = Some h"
    by (auto simp: isNamed_def)
  from COLORS_get_Some [OF this] obtain k where "(k, h) \<in> set COLORS" by blast
  with COLORS_values have "HEX_REGEX_match h \<noteq> None" unfolding list_all_iff by blast
  from fromHex_ok [OF this] show ?thesis by (simp add: h)
qed

lemma RGB_REGEX_match_words:
  "RGB_REGEX_match ''undefined'' = None" "RGB_REGEX_match ''null'' = None"
  "RGB_REGEX_match ''true'' = None" "RGB_REGEX_match ''false'' = None"
  by (rule RGB_REGEX_match_no_paren, simp)+

lemma HEX_REGEX_match_words:
  "HEX_REGEX_match ''undefined'' = None" "HEX_REGEX_match ''null'' = None"
  "HEX_REGEX_match ''true'' = None" "HEX_REGEX_match ''false'' = None"
  by simp_all

lemma Color_create_string:
  "(\<exists>c. Color_create (ArgString s) = Inr c) = accepted (ArgString s)"
  "\<not> accepted (ArgString s) \<Longrightarrow> Color_create (ArgString s) = Inl Error"
proof -
  have acc: "accepted (ArgString s) =
      (isNamed (ArgString s) \<or> RGB_REGEX_match s \<noteq> None \<or> HEX_REGEX_match s \<noteq> None)"
    by (simp only: accepted_def colorArg.case isNamed_string RGB_REGEX_match_iff HEX_REGEX_match_iff)
  show "(\<exists>c. Color_create (ArgString s) = Inr c) = accepted (ArgString s)"
    unfolding acc
    using named_fromHex [of s] fromRgb_ok [of s] fromHex_ok [of s]
    by (auto simp: Color_create_def Color_constructor_def isRgb_def isHex_def)
  show "\<not> accepted (ArgString s) \<Longrightarrow> Color_create (ArgString s) = Inl Error"
    unfolding acc
    by (simp add: Color_create_def Color_constructor_def isRgb_def isHex_def)
qed

lemma Color_create_embedded_hex:
  "Color_create (ArgString ''x#AABBCC'') = Inr \<lparr>Color_r = Fin 170, Color_g = Fin 187, Color_b = Fin 204\<rparr>"
proof -
  have m: "HEX_REGEX_match ''x#AABBCC'' = Some (''AA'', ''BB'', ''CC'')"
    by (simp add: isHexDigit_radix isRadix16Digit_def)
  have "fromHex ''x#AABBCC'' = Inr \<lparr>Color_r = Fin 170, Color_g = Fin 187, Color_b = Fin 204\<rparr>"
    unfolding fromHex_def m
    by (simp add: parseInt16_def isRadix16Digit_def hexValue_def Color_ofObject_def setR_def
        setG_def setB_def property_def)
  moreover have "\<not> isNamed (ArgString ''x#AABBCC'')"
    unfolding isNamed_string by (rule not_namesColor_hash) simp
  moreover have "\<not> isRgb (ArgString ''x#AABBCC'')"
    unfolding isRgb_def by (simp add: RGB_REGEX_match_no_paren del: RGB_REGEX_match.simps)
  moreover have "isHex (ArgString ''x#AABBCC'')"
    unfolding isHex_def by (simp add: m del: HEX_REGEX_match.simps)
  ultimately show ?thesis by (simp add: Color_create_def Color_constructor_def)
qed

text \<open>
  The upper-case form is the one of \<open>String.prototype.toUpperCase\<close>: with a sharp s for
  the last two letters, \<open>antique_bra\<close> and the unit 223 name \<open>ANTIQUE_BRASS\<close>.
\<close>

lemma COLORS_get_key: "COLORS_get (map of_char k) = map_of COLORS k"
proof -
  have inj: "inj (of_char :: char \<Rightarrow> nat)" by (rule injI) simp
  have eq: "(map of_char a = (map of_char b :: nat list)) = (a = b)" for a b
    by (rule inj_map_eq_map [OF inj])
  have "map_of (map (\<lambda>(k, v). (map of_char k :: nat list, v)) xs) (map of_char k :: nat list)
          = map_of xs k"
    for xs :: "(string \<times> string) list"
    by (induction xs) (auto simp: eq)
  then show ?thesis unfolding COLORS_get_def .
qed

lemma Color_create_sharp_s:
  "Color_create (ArgString (''antique_bra'' @ [CHR 0xDF]))
     = Inr \<lparr>Color_r = Fin 205, Color_g = Fin 149, Color_b = Fin 117\<rparr>"
proof -
  have up: "toUpperCase (''antique_bra'' @ [CHR 0xDF]) = map of_char ''ANTIQUE_BRASS''"
    by (simp add: toUpperCase_def upperUnits_def)
  have e: "map_of COLORS ''ANTIQUE_BRASS'' = Some ''#CD9575''" by code_simp
  have g: "COLORS_get (toUpperCase (''antique_bra'' @ [CHR 0xDF])) = Some ''#CD9575''"
    unfolding up COLORS_get_key e ..
  have m: "HEX_REGEX_match ''#CD9575'' = Some (''CD'', ''95'', ''75'')"
    by (simp add: isHexDigit_radix isRadix16Digit_def)
  have "fromHex ''#CD9575'' = Inr \<lparr>Color_r = Fin 205, Color_g = Fin 149, Color_b = Fin 117\<rparr>"
    unfolding fromHex_def m
    by (simp add: parseInt16_def isRadix16Digit_def hexValue_def Color_ofObject_def setR_def
        setG_def setB_def property_def)
  with g [simplified] show ?thesis
    by (simp add: Color_create_def Color_constructor_def isNamed_def)
qed

lemma not_isRgbForm_example: "\<not> isRgbForm ''x#AABBCC''"
proof
  assume "isRgbForm ''x#AABBCC''"
  then obtain h rest where eq: "''x#AABBCC'' = h @ rest" and up: "rgbOpening h"
    unfolding isRgbForm_def by blast
  from rgbOpening_length [OF up] have "length h = 4" .
  with eq have "h = take 4 ''x#AABBCC''" by (metis append_eq_conv_conj)
  then have "h = ''x#AA''" by simp
  with up show False by (simp add: rgbOpening_def)
qed

lemma not_namesColor_example: "\<not> namesColor ''x#AABBCC''"
  by (rule not_namesColor_hash) simp

text \<open>
  Claim C6 as stated fails: the patterns are not anchored, so \<open>create\<close> also takes a
  string that merely contains a textual form. \<open>x#AABBCC\<close> names no color and is
  neither of the two forms, and a Color is built from it.
\<close>

theorem Color_create_embedded_counterexample:
  "Color_create (ArgString ''x#AABBCC'')
     = Inr \<lparr>Color_r = Fin 170, Color_g = Fin 187, Color_b = Fin 204\<rparr>
   \<and> \<not> claimedAccepted (ArgString ''x#AABBCC'')"
  using Color_create_embedded_hex not_isRgbForm_example not_namesColor_example
  by (simp add: claimedAccepted_def isHexForm_def)

text \<open>
  Claim C6, amended. The inputs are \<open>undefined\<close>, \<open>null\<close>, the booleans, the Numbers, the
  primitive strings of code units below 256 and the plain objects whose own \<open>r\<close>, \<open>g\<close>,
  \<open>b\<close> are Numbers where present. For every such input other than an object with some
  but not all of \<open>r\<close>, \<open>g\<close>, \<open>b\<close>, of which nothing is said: \<open>Color.create(input)\<close>
  succeeds exactly when the input is a string whose upper-case form is a key of the
  dictionary, or a string that contains an \<open>rgb(r, g, b)\<close> form or a \<open>#RRGGBB\<close> form, or
  an object with all three of \<open>r\<close>, \<open>g\<close>, \<open>b\<close>; otherwise it raises an error, a TypeError
  on \<open>undefined\<close> and \<open>null\<close> and the Error of the constructor on the rest.
\<close>

theorem Color_create_accepts:
  assumes "\<not> partialObject color"
  shows "(\<exists>c. Color_create color = Inr c) = accepted color
         \<and> (\<not> accepted color \<longrightarrow>
              Color_create color =
                Inl (case color of ArgUndefined \<Rightarrow> TypeError | ArgNull \<Rightarrow> TypeError | _ \<Rightarrow> Error))"
proof (cases color)
  case ArgUndefined
  then show ?thesis
    by (simp add: Color_create_def Color_constructor_def isNamed_def isRgb_def isHex_def accepted_def
        RGB_REGEX_match_words HEX_REGEX_match_words del: RGB_REGEX_match.simps HEX_REGEX_match.simps)
next
  case ArgNull
  then show ?thesis
    by (simp add: Color_create_def Color_constructor_def isNamed_def isRgb_def isHex_def accepted_def
        RGB_REGEX_match_words HEX_REGEX_match_words del: RGB_REGEX_match.simps HEX_REGEX_match.simps)
next
  case (ArgBoolean v)
  then show ?thesis
    by (simp add: Color_create_def Color_constructor_def isNamed_def isRgb_def isHex_def accepted_def
        RGB_REGEX_match_words HEX_REGEX_match_words del: RGB_REGEX_match.simps HEX_REGEX_match.simps)
next
  case (ArgNumber n)
  then show ?thesis
    by (simp add: Color_create_def Color_constructor_def isNamed_def isRgb_def isHex_def accepted_def)
next
  case (ArgString s)
  with Color_create_string [of s] show ?thesis by auto
next
  case (ArgObject r g b)
  with assms show ?thesis
    by (auto simp: Color_create_def Color_constructor_object Color_ofObject_def accepted_def
        partialObject_def)
qed


theorem Color_create_accepts_witness:
  "accepted (ArgString ''x#AABBCC'') \<and> Color_create ArgNull = Inl TypeError
   \<and> \<not> accepted (ArgString ''#12345'')
   \<and> accepted (ArgString (''antique_bra'' @ [CHR 0xDF]))"
proof -
  have "\<not> partialObject (ArgString ''x#AABBCC'')" by (simp add: partialObject_def)
  from Color_create_accepts [OF this] Color_create_embedded_hex
  have 1: "accepted (ArgString ''x#AABBCC'')" by simp
  have "\<not> partialObject ArgNull" "\<not> accepted ArgNull"
    by (simp_all add: partialObject_def accepted_def)
  with Color_create_accepts [of ArgNull] have 2: "Color_create ArgNull = Inl TypeError" by simp
  have c: "Color_create (ArgString ''#12345'') = Inl Error"
  proof -
    have "\<not> isNamed (ArgString ''#12345'')" by (rule not_named_hash)
    moreover have "\<not> isRgb (ArgString ''#12345'')"
      unfolding isRgb_def by (simp add: RGB_REGEX_match_no_paren del: RGB_REGEX_match.simps)
    moreover have "\<not> isHex (ArgString ''#12345'')" unfolding isHex_def by simp
    ultimately show ?thesis by (simp add: Color_create_def Color_constructor_def)
  qed
  have p: "\<not> partialObject (ArgString ''#12345'')" by (simp add: partialObject_def)
  from Color_create_accepts [OF p] c have 3: "\<not> accepted (ArgString ''#12345'')" by simp
  have q: "\<not> partialObject (ArgString (''antique_bra'' @ [CHR 0xDF]))"
    by (simp add: partialObject_def)
  from Color_create_accepts [OF q] Color_create_sharp_s
  have 4: "accepted (ArgString (''antique_bra'' @ [CHR 0xDF]))" by simp
  from 1 2 3 4 show ?thesis by blast
qed

text \<open>An object with only some of the three properties is taken, with NaN channels.\<close>

lemma Color_create_partial_object:
  "Color_create (ArgObject (Some (Fin 10)) None None)
     = Inr \<lparr>Color_r = Fin 10, Color_g = NaN, Color_b = NaN\<rparr>"
  by (simp add: Color_create_def Color_constructor_object Color_ofObject_def setR_def setG_def
      setB_def property_def)

section \<open>Properties of the cursor\<close>

subsection \<open>Coordinates\<close>
lemma getXYFromPointer_inBounds:
  assumes "0 < Cursor_width s" and "0 \<le> i" and "i < Cursor_width s * Cursor_height s"
  shows "\<exists>x y. getXYFromPointer s i = Some (x, y) \<and> inBounds s x y"
proof -
  let ?w = "Cursor_width s"
  have q: "\<lfloor>real_of_int i / real_of_int ?w\<rfloor> = i div ?w" by (rule floor_divide_of_int_eq)
  have x: "i - i div ?w * ?w = i mod ?w" by (simp add: minus_div_mult_eq_mod)
  from assms(1) have m: "0 \<le> i mod ?w" "i mod ?w < ?w" by simp_all
  from assms(1,2) have y0: "0 \<le> i div ?w" by (simp add: pos_imp_zdiv_nonneg_iff)
  have y1: "i div ?w < Cursor_height s"
  proof (rule ccontr)
    assume "\<not> i div ?w < Cursor_height s"
    then have "Cursor_height s \<le> i div ?w" by simp
    with assms(1) have "?w * Cursor_height s \<le> ?w * (i div ?w)" by (simp add: mult_left_mono)
    also have "\<dots> \<le> ?w * (i div ?w) + i mod ?w" using m(1) by linarith
    also have "\<dots> = i" by (rule mult_div_mod_eq)
    finally show False using assms(3) by simp
  qed
  from assms(1) have "getXYFromPointer s i = Some (i mod ?w, i div ?w)"
    by (simp add: getXYFromPointer_def q x)
  with m y0 y1 show ?thesis by (simp add: inBounds_def)
qed

text \<open>
  Claim C9. For every position inside the grid, \<open>getXYFromPointer\<close> applied to its pointer
  returns the position; for every index \<open>i\<close> from 0 below \<open>width * height\<close>,
  \<open>getPointerFromXY\<close> applied to the pair that \<open>getXYFromPointer\<close> returns for \<open>i\<close> is \<open>i\<close>,
  and with a positive width that pair is a position inside the grid.
\<close>
theorem pointer_xy_inverse:
  "(0 \<le> x \<and> x < Cursor_width s \<and> 0 \<le> y \<and> y < Cursor_height s \<longrightarrow>
      getXYFromPointer s (getPointerFromXY s (Some x) (Some y)) = Some (x, y))
   \<and> (0 \<le> i \<and> i < Cursor_width s * Cursor_height s \<longrightarrow>
      (\<exists>x y. getXYFromPointer s i = Some (x, y) \<and> getPointerFromXY s (Some x) (Some y) = i))
   \<and> (0 < Cursor_width s \<and> 0 \<le> i \<and> i < Cursor_width s * Cursor_height s \<longrightarrow>
      (\<exists>x y. getXYFromPointer s i = Some (x, y) \<and> inBounds s x y))"
proof (intro conjI impI)
  assume h: "0 \<le> x \<and> x < Cursor_width s \<and> 0 \<le> y \<and> y < Cursor_height s"
  then have w: "Cursor_width s \<noteq> 0" by linarith
  have "\<lfloor>real_of_int (y * Cursor_width s + x) / real_of_int (Cursor_width s)\<rfloor>
          = (y * Cursor_width s + x) div Cursor_width s"
    by (rule floor_divide_of_int_eq)
  also from h have "\<dots> = y" by simp
  finally show "getXYFromPointer s (getPointerFromXY s (Some x) (Some y)) = Some (x, y)"
    using w by (simp add: getXYFromPointer_def getPointerFromXY_def)
next
  assume h: "0 \<le> i \<and> i < Cursor_width s * Cursor_height s"
  then have w: "Cursor_width s \<noteq> 0" by auto
  then show "\<exists>x y. getXYFromPointer s i = Some (x, y) \<and> getPointerFromXY s (Some x) (Some y) = i"
    by (simp add: getXYFromPointer_def getPointerFromXY_def)
next
  assume "0 < Cursor_width s \<and> 0 \<le> i \<and> i < Cursor_width s * Cursor_height s"
  then show "\<exists>x y. getXYFromPointer s i = Some (x, y) \<and> inBounds s x y"
    by (intro getXYFromPointer_inBounds) simp_all
qed

theorem pointer_xy_inverse_witness:
  "getXYFromPointer (emptyCursor 3 2) (getPointerFromXY (emptyCursor 3 2) (Some 2) (Some 1))
     = Some (2, 1)
   \<and> (\<exists>x y. getXYFromPointer (emptyCursor 3 2) 5 = Some (x, y)
            \<and> getPointerFromXY (emptyCursor 3 2) (Some x) (Some y) = 5)
   \<and> (\<exists>x y. getXYFromPointer (emptyCursor 3 2) 5 = Some (x, y)
            \<and> inBounds (emptyCursor 3 2) x y)"
  using pointer_xy_inverse [of 2 "emptyCursor 3 2" 1 5] by (simp add: emptyCursor_def)

subsection \<open>Arrays\<close>

lemma arrayGet_arraySet: "arrayGet (arraySet a i v) p = (if p = int i then Some v else arrayGet a p)"
proof (cases "i < length a")
  case True
  then show ?thesis by (auto simp: arrayGet_def arraySet_def nat_eq_iff)
next
  case False
  then show ?thesis
    by (auto simp: arrayGet_def arraySet_def nth_append nat_less_iff)
qed

lemma arrayGet_update:
  "0 \<le> q \<Longrightarrow> q < int (length a) \<Longrightarrow>
   arrayGet (a[nat q := v]) i = (if i = q then v else arrayGet a i)"
  by (auto simp: arrayGet_def nat_eq_iff)

lemma arrayGet_Some_range: "arrayGet a q = Some c \<Longrightarrow> 0 \<le> q \<and> q < int (length a)"
  by (simp add: arrayGet_def split: if_splits)

subsection \<open>Writing\<close>

lemma inBounds_pointer: "inBounds s x y \<Longrightarrow> 0 \<le> getPointerFromXY s (Some x) (Some y)"
  by (simp add: inBounds_def getPointerFromXY_def)

lemma writeChar_fields:
  "Cursor_x (writeChar bg fg d s ch) = Cursor_x s + 1"
  "Cursor_y (writeChar bg fg d s ch) = Cursor_y s"
  "Cursor_width (writeChar bg fg d s ch) = Cursor_width s"
  "Cursor_height (writeChar bg fg d s ch) = Cursor_height s"
  "Cursor_background (writeChar bg fg d s ch) = Cursor_background s"
  "Cursor_foreground (writeChar bg fg d s ch) = Cursor_foreground s"
  "Cursor_display (writeChar bg fg d s ch) = Cursor_display s"
  "Cursor_lastFrame (writeChar bg fg d s ch) = Cursor_lastFrame s"
  by (simp_all add: writeChar_def Let_def)

lemma writeChar_terminal:
  "arrayGet (Cursor_terminal (writeChar bg fg d s ch)) p =
     (if inBounds s (Cursor_x s) (Cursor_y s) \<and> p = Cursor_y s * Cursor_width s + Cursor_x s
      then Some \<lparr>Cell_char = ch, Cell_x = Cursor_x s, Cell_y = Cursor_y s, Cell_background = bg,
                 Cell_foreground = fg, Cell_display = d\<rparr>
      else arrayGet (Cursor_terminal s) p)"
proof (cases "inBounds s (Cursor_x s) (Cursor_y s)")
  case True
  from inBounds_pointer [OF this] have "0 \<le> Cursor_y s * Cursor_width s + Cursor_x s"
    by (simp add: getPointerFromXY_def)
  with True show ?thesis
    by (simp add: writeChar_def Let_def inBounds_def getPointerFromXY_def arrayGet_arraySet)
next
  case False
  then show ?thesis by (auto simp: writeChar_def Let_def inBounds_def)
qed

lemma writeChars_fields:
  "Cursor_x (writeChars bg fg d s cs) = Cursor_x s + int (length cs)"
  "Cursor_y (writeChars bg fg d s cs) = Cursor_y s"
  "Cursor_width (writeChars bg fg d s cs) = Cursor_width s"
  "Cursor_height (writeChars bg fg d s cs) = Cursor_height s"
  "Cursor_background (writeChars bg fg d s cs) = Cursor_background s"
  "Cursor_foreground (writeChars bg fg d s cs) = Cursor_foreground s"
  "Cursor_display (writeChars bg fg d s cs) = Cursor_display s"
  "Cursor_lastFrame (writeChars bg fg d s cs) = Cursor_lastFrame s"
  by (induction cs arbitrary: s; simp add: writeChar_fields)+

lemma nat_shift: "nat (p - (1 + k)) = nat (p - k) - Suc 0"
  by linarith

lemma writeChars_terminal:
  "arrayGet (Cursor_terminal (writeChars bg fg d s cs)) p =
     (if 0 \<le> p - (Cursor_y s * Cursor_width s + Cursor_x s)
         \<and> p - (Cursor_y s * Cursor_width s + Cursor_x s) < int (length cs)
         \<and> inBounds s (p - Cursor_y s * Cursor_width s) (Cursor_y s)
      then Some \<lparr>Cell_char = cs ! nat (p - (Cursor_y s * Cursor_width s + Cursor_x s)),
                 Cell_x = p - Cursor_y s * Cursor_width s, Cell_y = Cursor_y s,
                 Cell_background = bg, Cell_foreground = fg, Cell_display = d\<rparr>
      else arrayGet (Cursor_terminal s) p)"
proof (induction cs arbitrary: s p)
  case Nil
  then show ?case by auto
next
  case (Cons c cs)
  have ib: "inBounds (writeChar bg fg d s c) x y = inBounds s x y" for x y
    by (simp add: inBounds_def writeChar_fields)
  show ?case
  proof (cases "p = Cursor_y s * Cursor_width s + Cursor_x s")
    case True
    then show ?thesis
      by (simp add: Cons.IH writeChar_fields writeChar_terminal ib)
  next
    case False
    then show ?thesis
      by (auto simp: Cons.IH writeChar_fields writeChar_terminal ib nat_shift algebra_simps
          nth_Cons')
  qed
qed


text \<open>
  Claim C2. \<open>write(text)\<close> from the cursor position \<open>(x0, y0)\<close>, for a text of length \<open>n\<close>:
  for each \<open>i < n\<close> whose position \<open>(x0 + i, y0)\<close> is inside the grid, the slot
  \<open>y0 * width + x0 + i\<close> holds a new cell with the \<open>i\<close>-th character, that position and
  the pen as it was when the call began; every other slot is as before, so a character
  outside the grid stores nothing and nothing wraps to another line; the cursor ends at
  \<open>(x0 + n, y0)\<close>; the pen, the dimensions and the last frame do not change.
\<close>

theorem write_row:
  "Cursor_x (Cursor_write s text) = Cursor_x s + int (length text)
   \<and> Cursor_y (Cursor_write s text) = Cursor_y s
   \<and> (\<forall>i<length text. inBounds s (Cursor_x s + int i) (Cursor_y s) \<longrightarrow>
         arrayGet (Cursor_terminal (Cursor_write s text))
           (Cursor_y s * Cursor_width s + (Cursor_x s + int i))
         = Some (penCell s (text ! i) (Cursor_x s + int i) (Cursor_y s)))
   \<and> (\<forall>p. \<not> (\<exists>i<length text. inBounds s (Cursor_x s + int i) (Cursor_y s)
                  \<and> p = Cursor_y s * Cursor_width s + (Cursor_x s + int i)) \<longrightarrow>
         arrayGet (Cursor_terminal (Cursor_write s text)) p = arrayGet (Cursor_terminal s) p)
   \<and> Cursor_background (Cursor_write s text) = Cursor_background s
   \<and> Cursor_foreground (Cursor_write s text) = Cursor_foreground s
   \<and> Cursor_display (Cursor_write s text) = Cursor_display s
   \<and> Cursor_width (Cursor_write s text) = Cursor_width s
   \<and> Cursor_height (Cursor_write s text) = Cursor_height s
   \<and> Cursor_lastFrame (Cursor_write s text) = Cursor_lastFrame s"
proof -
  let ?q = "Cursor_y s * Cursor_width s + Cursor_x s"
  have stored: "arrayGet (Cursor_terminal (Cursor_write s text)) (Cursor_y s * Cursor_width s + (Cursor_x s + int i))
         = Some (penCell s (text ! i) (Cursor_x s + int i) (Cursor_y s))"
    if "i < length text" "inBounds s (Cursor_x s + int i) (Cursor_y s)" for i
    using that by (simp add: Cursor_write_def writeChars_terminal penCell_def)
  have kept: "arrayGet (Cursor_terminal (Cursor_write s text)) p = arrayGet (Cursor_terminal s) p"
    if h: "\<not> (\<exists>i<length text. inBounds s (Cursor_x s + int i) (Cursor_y s)
                  \<and> p = Cursor_y s * Cursor_width s + (Cursor_x s + int i))" for p
  proof (cases "0 \<le> p - ?q \<and> p - ?q < int (length text)
                 \<and> inBounds s (p - Cursor_y s * Cursor_width s) (Cursor_y s)")
    case True
    then have "nat (p - ?q) < length text" "p = Cursor_y s * Cursor_width s + (Cursor_x s + int (nat (p - ?q)))"
      by linarith+
    moreover from True this(2) have "inBounds s (Cursor_x s + int (nat (p - ?q))) (Cursor_y s)"
      by (simp add: algebra_simps)
    ultimately show ?thesis using h by blast
  next
    case False
    then show ?thesis unfolding Cursor_write_def writeChars_terminal by (simp only: if_False)
  qed
  show ?thesis
    using stored kept by (simp add: Cursor_write_def writeChars_fields)
qed

theorem write_row_witness:
  "Cursor_x (Cursor_write (moveTo (emptyCursor 3 1) 1 0) ''abc'') = 4
   \<and> Cursor_y (Cursor_write (moveTo (emptyCursor 3 1) 1 0) ''abc'') = 0
   \<and> arrayGet (Cursor_terminal (Cursor_write (moveTo (emptyCursor 3 1) 1 0) ''abc'')) 2
       = Some \<lparr>Cell_char = CHR ''b'', Cell_x = 2, Cell_y = 0, Cell_background = None,
                Cell_foreground = None, Cell_display = DisplayFalse\<rparr>
   \<and> arrayGet (Cursor_terminal (Cursor_write (moveTo (emptyCursor 3 1) 1 0) ''abc'')) 3 = None
   \<and> arrayGet (Cursor_terminal (Cursor_write (moveTo (emptyCursor 3 1) 1 0) ''abc'')) 0 = None"
proof -
  let ?s = "moveTo (emptyCursor 3 1) 1 0"
  have s: "Cursor_x ?s = 1" "Cursor_y ?s = 0" "Cursor_width ?s = 3" "Cursor_height ?s = 1"
    "Cursor_terminal ?s = []"
    by (simp_all add: moveTo_def emptyCursor_def)
  note w = write_row [of ?s "''abc''", unfolded s]
  from w have "Cursor_x (Cursor_write ?s ''abc'') = 4" "Cursor_y (Cursor_write ?s ''abc'') = 0"
    by simp_all
  moreover from w have a: "\<forall>i<length ''abc''. inBounds ?s (1 + int i) 0 \<longrightarrow>
         arrayGet (Cursor_terminal (Cursor_write ?s ''abc'')) (0 * 3 + (1 + int i))
         = Some (penCell ?s (''abc'' ! i) (1 + int i) 0)" by blast
  have "arrayGet (Cursor_terminal (Cursor_write ?s ''abc'')) 2
       = Some \<lparr>Cell_char = CHR ''b'', Cell_x = 2, Cell_y = 0, Cell_background = None,
                Cell_foreground = None, Cell_display = DisplayFalse\<rparr>"
    using a [rule_format, of 1]
    by (simp add: inBounds_def penCell_def moveTo_def emptyCursor_def)
  moreover from w have k: "\<forall>p. \<not> (\<exists>i<length ''abc''. inBounds ?s (1 + int i) 0
                  \<and> p = 0 * 3 + (1 + int i)) \<longrightarrow>
         arrayGet (Cursor_terminal (Cursor_write ?s ''abc'')) p = arrayGet [] p" by blast
  have "arrayGet (Cursor_terminal (Cursor_write ?s ''abc'')) 3 = None"
    using k [rule_format, of 3] by (auto simp: inBounds_def moveTo_def emptyCursor_def arrayGet_def)
  moreover have "arrayGet (Cursor_terminal (Cursor_write ?s ''abc'')) 0 = None"
    using k [rule_format, of 0] by (auto simp: inBounds_def moveTo_def emptyCursor_def arrayGet_def)
  ultimately show ?thesis by blast
qed

text \<open>
  The example of the specification: after \<open>moveTo(-3, -2)\<close>, \<open>write("x")\<close> changes no slot
  and leaves the cursor at \<open>(-2, -2)\<close>.
\<close>

lemma write_outside_example:
  "Cursor_write (moveTo (emptyCursor 3 1) (- 3) (- 2)) ''x'' =
     (emptyCursor 3 1)\<lparr>Cursor_x := - 2, Cursor_y := - 2\<rparr>"
  by (simp add: Cursor_write_def moveTo_def emptyCursor_def writeChar_def)

subsection \<open>Erasing\<close>

lemma set_rectangle: "set (rectangle x1 y1 x2 y2) = {(x, y). x1 \<le> x \<and> x \<le> x2 \<and> y1 \<le> y \<and> y \<le> y2}"
  by (auto simp: rectangle_def)

lemma eraseCells_append:
  "eraseCells s (xs @ ys) = (case eraseCells s xs of Inl e \<Rightarrow> Inl e | Inr s' \<Rightarrow> eraseCells s' ys)"
  by (induction s xs rule: eraseCells.induct) (simp_all split: option.splits)

lemma eraseCells_ok:
  assumes "\<forall>p\<in>set ps. cellAt s p \<noteq> None"
  shows "\<exists>s'. eraseCells s ps = Inr s'
           \<and> s' = s\<lparr>Cursor_terminal := Cursor_terminal s'\<rparr>
           \<and> (\<forall>i. arrayGet (Cursor_terminal s') i =
                 (if i \<in> pointerOf s ` set ps
                  then map_option (\<lambda>c. setChar c CHR '' '') (arrayGet (Cursor_terminal s) i)
                  else arrayGet (Cursor_terminal s) i))"
  using assms
proof (induction ps arbitrary: s)
  case Nil
  then show ?case by simp
next
  case (Cons p ps)
  obtain x y where p: "p = (x, y)" by (cases p)
  let ?q = "getPointerFromXY s (Some x) (Some y)"
  from Cons.prems p obtain c where c: "arrayGet (Cursor_terminal s) ?q = Some c"
    by (auto simp: cellAt_def pointerOf_def)
  note r = arrayGet_Some_range [OF c]
  define s1 where "s1 = s\<lparr>Cursor_terminal := (Cursor_terminal s)[nat ?q := Some (setChar c CHR '' '')]\<rparr>"
  have ptr: "pointerOf s1 = pointerOf s"
    by (simp add: fun_eq_iff pointerOf_def getPointerFromXY_def s1_def)
  have get1: "arrayGet (Cursor_terminal s1) i =
                (if i = ?q then Some (setChar c CHR '' '') else arrayGet (Cursor_terminal s) i)" for i
    using r by (simp add: s1_def arrayGet_update)
  have "\<forall>p\<in>set ps. cellAt s1 p \<noteq> None"
    using Cons.prems by (simp add: cellAt_def ptr get1)
  from Cons.IH [OF this] obtain s' where s':
    "eraseCells s1 ps = Inr s'" "s' = s1\<lparr>Cursor_terminal := Cursor_terminal s'\<rparr>"
    "\<And>i. arrayGet (Cursor_terminal s') i =
            (if i \<in> pointerOf s ` set ps
             then map_option (\<lambda>c. setChar c CHR '' '') (arrayGet (Cursor_terminal s1) i)
             else arrayGet (Cursor_terminal s1) i)"
    unfolding ptr by blast
  have "eraseCells s (p # ps) = Inr s'"
    using c s'(1) by (simp add: p s1_def)
  moreover have "s' = s\<lparr>Cursor_terminal := Cursor_terminal s'\<rparr>"
    using s'(2) by (simp add: s1_def)
  moreover have "arrayGet (Cursor_terminal s') i =
                 (if i \<in> pointerOf s ` set (p # ps)
                  then map_option (\<lambda>c. setChar c CHR '' '') (arrayGet (Cursor_terminal s) i)
                  else arrayGet (Cursor_terminal s) i)" for i
    using c by (auto simp: s'(3) get1 p pointerOf_def setChar_def)
  ultimately show ?case by blast
qed


lemma written_abc:
  "Cursor_write (emptyCursor 3 1) ''abc'' =
     \<lparr>Cursor_terminal =
        [Some \<lparr>Cell_char = CHR ''a'', Cell_x = 0, Cell_y = 0, Cell_background = None,
                Cell_foreground = None, Cell_display = DisplayFalse\<rparr>,
         Some \<lparr>Cell_char = CHR ''b'', Cell_x = 1, Cell_y = 0, Cell_background = None,
                Cell_foreground = None, Cell_display = DisplayFalse\<rparr>,
         Some \<lparr>Cell_char = CHR ''c'', Cell_x = 2, Cell_y = 0, Cell_background = None,
                Cell_foreground = None, Cell_display = DisplayFalse\<rparr>],
      Cursor_x = 3, Cursor_y = 0, Cursor_background = None, Cursor_foreground = None,
      Cursor_display = DisplayFalse, Cursor_width = 3, Cursor_height = 1, Cursor_lastFrame = {}\<rparr>"
  by (simp add: Cursor_write_def emptyCursor_def writeChar_def getPointerFromXY_def arraySet_def)

text \<open>
  Claim C3. \<open>erase(x1, y1, x2, y2)\<close> with \<open>x1 \<le> x2\<close> and \<open>y1 \<le> y2\<close>, every position of the
  rectangle inside the grid and holding a cell: the call returns; the cell at each
  position of the rectangle is the cell that was there with its character replaced by a
  space (its position, background, foreground and display are kept); every slot that is
  the slot of no position of the rectangle is unchanged, and so are the cursor position
  and all other fields.
\<close>

theorem erase_blanks_rectangle:
  assumes "x1 \<le> x2" and "y1 \<le> y2"
    and "\<forall>x y. x1 \<le> x \<and> x \<le> x2 \<and> y1 \<le> y \<and> y \<le> y2 \<longrightarrow>
           inBounds s x y \<and> cellAt s (x, y) \<noteq> None"
  shows "\<exists>s'. erase s x1 y1 x2 y2 = Inr s'
           \<and> (\<forall>x y. x1 \<le> x \<and> x \<le> x2 \<and> y1 \<le> y \<and> y \<le> y2 \<longrightarrow>
                 (\<exists>c. cellAt s (x, y) = Some c \<and> cellAt s' (x, y) = Some (c\<lparr>Cell_char := CHR '' ''\<rparr>)))
           \<and> (\<forall>i. \<not> (\<exists>x y. x1 \<le> x \<and> x \<le> x2 \<and> y1 \<le> y \<and> y \<le> y2 \<and> i = pointerOf s (x, y)) \<longrightarrow>
                 arrayGet (Cursor_terminal s') i = arrayGet (Cursor_terminal s) i)
           \<and> Cursor_x s' = Cursor_x s \<and> Cursor_y s' = Cursor_y s
           \<and> s' = s\<lparr>Cursor_terminal := Cursor_terminal s'\<rparr>"
proof -
  have "\<forall>p\<in>set (rectangle x1 y1 x2 y2). cellAt s p \<noteq> None"
    using assms(3) by (auto simp: set_rectangle)
  from eraseCells_ok [OF this] obtain s' where s':
    "eraseCells s (rectangle x1 y1 x2 y2) = Inr s'" "s' = s\<lparr>Cursor_terminal := Cursor_terminal s'\<rparr>"
    "\<And>i. arrayGet (Cursor_terminal s') i =
            (if i \<in> pointerOf s ` set (rectangle x1 y1 x2 y2)
             then map_option (\<lambda>c. setChar c CHR '' '') (arrayGet (Cursor_terminal s) i)
             else arrayGet (Cursor_terminal s) i)"
    by blast
  have ptr: "pointerOf s' = pointerOf s"
    by (subst s'(2)) (simp add: fun_eq_iff pointerOf_def getPointerFromXY_def)
  have inside: "\<exists>c. cellAt s (x, y) = Some c \<and> cellAt s' (x, y) = Some (c\<lparr>Cell_char := CHR '' ''\<rparr>)"
    if h: "x1 \<le> x \<and> x \<le> x2 \<and> y1 \<le> y \<and> y \<le> y2" for x y
  proof -
    from assms(3) h obtain c where c: "cellAt s (x, y) = Some c" by blast
    from h have "pointerOf s (x, y) \<in> pointerOf s ` set (rectangle x1 y1 x2 y2)"
      by (auto simp: set_rectangle)
    with c have "cellAt s' (x, y) = Some (c\<lparr>Cell_char := CHR '' ''\<rparr>)"
      by (simp add: cellAt_def ptr s'(3) setChar_def)
    with c show ?thesis by blast
  qed
  have outside: "arrayGet (Cursor_terminal s') i = arrayGet (Cursor_terminal s) i"
    if "\<not> (\<exists>x y. x1 \<le> x \<and> x \<le> x2 \<and> y1 \<le> y \<and> y \<le> y2 \<and> i = pointerOf s (x, y))" for i
  proof -
    from that have "i \<notin> pointerOf s ` set (rectangle x1 y1 x2 y2)"
      by (auto simp: set_rectangle)
    then show ?thesis by (simp add: s'(3))
  qed
  have "Cursor_x s' = Cursor_x s" "Cursor_y s' = Cursor_y s"
    by (subst s'(2), simp)+
  with s'(1,2) inside outside show ?thesis
    unfolding erase_def by blast
qed

theorem erase_blanks_rectangle_witness:
  "\<exists>s'. erase (Cursor_write (emptyCursor 3 1) ''abc'') 0 0 2 0 = Inr s'
        \<and> cellAt s' (1, 0) = Some \<lparr>Cell_char = CHR '' '', Cell_x = 1, Cell_y = 0,
                                     Cell_background = None, Cell_foreground = None,
                                     Cell_display = DisplayFalse\<rparr>
        \<and> Cursor_x s' = 3 \<and> Cursor_y s' = 0"
proof -
  let ?s = "Cursor_write (emptyCursor 3 1) ''abc''"
  have h: "\<forall>x y. 0 \<le> x \<and> x \<le> 2 \<and> 0 \<le> y \<and> y \<le> 0 \<longrightarrow> inBounds ?s x y \<and> cellAt ?s (x, y) \<noteq> None"
  proof (intro allI impI)
    fix x y :: int
    assume "0 \<le> x \<and> x \<le> 2 \<and> 0 \<le> y \<and> y \<le> 0"
    then have "y = 0" "x = 0 \<or> x = 1 \<or> x = 2" by auto
    then show "inBounds ?s x y \<and> cellAt ?s (x, y) \<noteq> None"
      unfolding written_abc
      by (auto simp: inBounds_def cellAt_def pointerOf_def getPointerFromXY_def arrayGet_def)
  qed
  from erase_blanks_rectangle [of 0 2 0 0 ?s, OF _ _ h] obtain s' where s':
    "erase ?s 0 0 2 0 = Inr s'"
    "\<forall>x y. 0 \<le> x \<and> x \<le> 2 \<and> 0 \<le> y \<and> y \<le> 0 \<longrightarrow>
       (\<exists>c. cellAt ?s (x, y) = Some c \<and> cellAt s' (x, y) = Some (c\<lparr>Cell_char := CHR '' ''\<rparr>))"
    "Cursor_x s' = Cursor_x ?s" "Cursor_y s' = Cursor_y ?s"
    by auto
  from s'(2) [rule_format, of 1 0]
  have "cellAt s' (1, 0) = Some \<lparr>Cell_char = CHR '' '', Cell_x = 1, Cell_y = 0,
                                 Cell_background = None, Cell_foreground = None,
                                 Cell_display = DisplayFalse\<rparr>"
    unfolding written_abc
    by (auto simp: cellAt_def pointerOf_def getPointerFromXY_def arrayGet_def)
  moreover from s'(3,4) have "Cursor_x s' = 3" "Cursor_y s' = 0"
    unfolding written_abc by simp_all
  ultimately show ?thesis using s'(1) by blast
qed

text \<open>
  Claim C10. \<open>erase(x1, y1, x2, y2)\<close> over a rectangle with a position whose slot holds no
  cell: the call raises a TypeError; it neither makes a cell for that slot nor skips it.
  The loop stops at the first such position in its row-major order, and the state that
  the error leaves has the cells of the positions before it already blanked, and nothing
  else changed: the call is not atomic.
\<close>

theorem erase_unwritten_raises:
  assumes "\<exists>p\<in>set (rectangle x1 y1 x2 y2). cellAt s p = None"
  shows "\<exists>pre q post s'. rectangle x1 y1 x2 y2 = pre @ q # post
           \<and> (\<forall>p\<in>set pre. cellAt s p \<noteq> None) \<and> cellAt s q = None
           \<and> erase s x1 y1 x2 y2 = Inl (TypeError, s')
           \<and> s' = s\<lparr>Cursor_terminal := Cursor_terminal s'\<rparr>
           \<and> (\<forall>i. arrayGet (Cursor_terminal s') i =
                 (if i \<in> pointerOf s ` set pre
                  then map_option (\<lambda>c. setChar c CHR '' '') (arrayGet (Cursor_terminal s) i)
                  else arrayGet (Cursor_terminal s) i))"
proof -
  from split_list_first_prop [OF assms] obtain pre q post where split:
    "rectangle x1 y1 x2 y2 = pre @ q # post" "cellAt s q = None" "\<forall>p\<in>set pre. cellAt s p \<noteq> None"
    by blast
  from eraseCells_ok [OF split(3)] obtain s' where s':
    "eraseCells s pre = Inr s'" "s' = s\<lparr>Cursor_terminal := Cursor_terminal s'\<rparr>"
    "\<And>i. arrayGet (Cursor_terminal s') i =
            (if i \<in> pointerOf s ` set pre
             then map_option (\<lambda>c. setChar c CHR '' '') (arrayGet (Cursor_terminal s) i)
             else arrayGet (Cursor_terminal s) i)"
    by blast
  have ptr: "pointerOf s' = pointerOf s"
    by (subst s'(2)) (simp add: fun_eq_iff pointerOf_def getPointerFromXY_def)
  obtain x y where q: "q = (x, y)" by (cases q)
  from split(2) have "arrayGet (Cursor_terminal s') (pointerOf s' q) = None"
    by (simp add: ptr s'(3) cellAt_def)
  then have "eraseCells s' (q # post) = Inl (TypeError, s')"
    by (simp add: q pointerOf_def)
  then have "erase s x1 y1 x2 y2 = Inl (TypeError, s')"
    by (simp add: erase_def split(1) eraseCells_append s'(1))
  with split s'(2,3) show ?thesis by blast
qed

theorem erase_unwritten_raises_witness:
  "\<exists>pre q post s'.
      rectangle 0 0 2 0 = pre @ q # post
      \<and> (\<forall>p\<in>set pre. cellAt (Cursor_write (moveTo (Cursor_write (emptyCursor 3 1) ''a'') 2 0) ''c'') p \<noteq> None)
      \<and> cellAt (Cursor_write (moveTo (Cursor_write (emptyCursor 3 1) ''a'') 2 0) ''c'') q = None
      \<and> erase (Cursor_write (moveTo (Cursor_write (emptyCursor 3 1) ''a'') 2 0) ''c'') 0 0 2 0
          = Inl (TypeError, s')"
proof -
  let ?s = "Cursor_write (moveTo (Cursor_write (emptyCursor 3 1) ''a'') 2 0) ''c''"
  have "cellAt ?s (1, 0) = None"
    by (simp add: Cursor_write_def emptyCursor_def writeChar_def getPointerFromXY_def arraySet_def
        moveTo_def cellAt_def pointerOf_def arrayGet_def)
  moreover have "(1, 0) \<in> set (rectangle 0 0 2 0)" by (simp add: set_rectangle)
  ultimately have "\<exists>p\<in>set (rectangle 0 0 2 0). cellAt ?s p = None" by blast
  from erase_unwritten_raises [OF this] show ?thesis by blast
qed

text \<open>The same call evaluated: the first cell is blanked, the third is not reached.\<close>

lemma erase_partial_example:
  "erase (Cursor_write (moveTo (Cursor_write (emptyCursor 3 1) ''a'') 2 0) ''c'') 0 0 2 0 =
     Inl (TypeError,
          \<lparr>Cursor_terminal =
             [Some \<lparr>Cell_char = CHR '' '', Cell_x = 0, Cell_y = 0, Cell_background = None,
                     Cell_foreground = None, Cell_display = DisplayFalse\<rparr>,
              None,
              Some \<lparr>Cell_char = CHR ''c'', Cell_x = 2, Cell_y = 0, Cell_background = None,
                     Cell_foreground = None, Cell_display = DisplayFalse\<rparr>],
           Cursor_x = 3, Cursor_y = 0, Cursor_background = None, Cursor_foreground = None,
           Cursor_display = DisplayFalse, Cursor_width = 3, Cursor_height = 1,
           Cursor_lastFrame = {}\<rparr>)"
  by (simp add: Cursor_write_def emptyCursor_def writeChar_def getPointerFromXY_def arraySet_def
      moveTo_def erase_def rectangle_def upto.simps arrayGet_def setChar_def)

text \<open>
  Claim C4. No movement, write or erase operation raises an error, whatever the
  arguments. The movement operations and \<open>write\<close> are total functions of the model and
  \<open>write\<close> guards the store by the bounds. \<open>erase\<close> has no such guard: on the 3 by 1
  buffer holding \<open>abc\<close>, \<open>erase(0, 0, 3, 0)\<close>, a rectangle partly outside the bounds,
  blanks the three cells and raises a TypeError at the fourth position.
\<close>

theorem erase_outside_bounds_raises:
  "erase (Cursor_write (emptyCursor 3 1) ''abc'') 0 0 3 0 =
     Inl (TypeError,
          \<lparr>Cursor_terminal =
             [Some \<lparr>Cell_char = CHR '' '', Cell_x = 0, Cell_y = 0, Cell_background = None,
                     Cell_foreground = None, Cell_display = DisplayFalse\<rparr>,
              Some \<lparr>Cell_char = CHR '' '', Cell_x = 1, Cell_y = 0, Cell_background = None,
                     Cell_foreground = None, Cell_display = DisplayFalse\<rparr>,
              Some \<lparr>Cell_char = CHR '' '', Cell_x = 2, Cell_y = 0, Cell_background = None,
                     Cell_foreground = None, Cell_display = DisplayFalse\<rparr>],
           Cursor_x = 3, Cursor_y = 0, Cursor_background = None, Cursor_foreground = None,
           Cursor_display = DisplayFalse, Cursor_width = 3, Cursor_height = 1,
           Cursor_lastFrame = {}\<rparr>)"
  by (simp add: written_abc erase_def rectangle_def upto.simps getPointerFromXY_def arrayGet_def
      setChar_def)

subsection \<open>Construction\<close>

lemma Color_create_false: "Color_create (ArgBoolean False) = Inl Error"
  by (simp add: Color_create_def Color_constructor_def isNamed_def isRgb_def isHex_def
      RGB_REGEX_match_words HEX_REGEX_match_words
      del: RGB_REGEX_match.simps HEX_REGEX_match.simps)

text \<open>
  Claim C5. Constructing a cursor succeeds and yields the initial state. The constructor
  passes \<open>false\<close> to \<open>setBackground\<close>, which hands it to \<open>Color.create\<close>; \<open>false\<close> is no
  color name, matches neither pattern and has no property \<open>r\<close>, \<open>g\<close> or \<open>b\<close>, so the
  construction ends in the Error of the Color constructor, for every buffer.
\<close>

theorem Cursor_constructor_raises: "Cursor_constructor this terminal = Inl Error"
  by (simp add: Cursor_constructor_def setBackground_def Color_create_false)

subsection \<open>Flushing\<close>

lemma elements_concat: "elements a = concat (map (\<lambda>v. case v of None \<Rightarrow> [] | Some c \<Rightarrow> [c]) a)"
  by (induction a rule: elements.induct) simp_all

lemma storedCells_elements: "storedCells s = elements (Cursor_terminal s)"
proof -
  let ?T = "Cursor_terminal s"
  have "map (\<lambda>i. case arrayGet ?T (int i) of None \<Rightarrow> [] | Some c \<Rightarrow> [c]) [0..<length ?T]
        = map (\<lambda>i. case ?T ! i of None \<Rightarrow> [] | Some c \<Rightarrow> [c]) [0..<length ?T]"
    by (simp add: arrayGet_def)
  also have "\<dots> = map (\<lambda>v. case v of None \<Rightarrow> [] | Some c \<Rightarrow> [c]) (map (nth ?T) [0..<length ?T])"
    by simp
  also have "\<dots> = map (\<lambda>v. case v of None \<Rightarrow> [] | Some c \<Rightarrow> [c]) ?T"
    by (simp only: map_nth)
  finally show ?thesis by (simp add: storedCells_def elements_concat)
qed

lemma set_elements: "set (elements a) = {c. Some c \<in> set a}"
  by (induction a rule: elements.induct) auto

lemma frame_member: "(Some e \<in> set (map (map_option enc) a)) = (e \<in> enc ` set (elements a))"
  by (induction a rule: elements.induct) auto

lemma lastFrame_exact:
  "set (map (map_option enc) a) = Some ` enc ` set (elements a) \<union> (if None \<in> set a then {None} else {})"
  by (induction a rule: elements.induct) auto

text \<open>
  Claim C1. For every buffer, last frame and encoder, \<open>flush\<close> writes one string to the
  output: the concatenation, in slot order, of the encodings of the stored cells whose
  encoding is not in the snapshot. Afterwards the snapshot is the set of the encodings
  of all stored cells, and nothing else of the cursor has changed. A second \<open>flush\<close>
  right after the first writes the empty string. (The \<open>Set\<close> itself is given too: over
  an array with holes it also holds \<open>undefined\<close>, which no lookup asks for.)
\<close>

theorem flush_emits_changes:
  "snd (flush enc (s, out)) =
     out @ [concat (map enc (filter (\<lambda>c. enc c \<notin> snapshot s) (storedCells s)))]
   \<and> snapshot (fst (flush enc (s, out))) = enc ` set (storedCells s)
   \<and> Cursor_lastFrame (fst (flush enc (s, out))) =
       Some ` enc ` set (storedCells s) \<union> (if None \<in> set (Cursor_terminal s) then {None} else {})
   \<and> fst (flush enc (s, out)) = s\<lparr>Cursor_lastFrame := Cursor_lastFrame (fst (flush enc (s, out)))\<rparr>
   \<and> snd (flush enc (flush enc (s, out))) = snd (flush enc (s, out)) @ [[]]"
proof -
  let ?T = "Cursor_terminal s"
  have out: "snd (flush enc (s, out)) =
     out @ [concat (map enc (filter (\<lambda>c. enc c \<notin> snapshot s) (storedCells s)))]"
    by (simp add: flush_def storedCells_elements snapshot_def)
  have frame: "snapshot (fst (flush enc (s, out))) = enc ` set (storedCells s)"
    unfolding snapshot_def
    by (simp add: flush_def storedCells_elements frame_member del: set_map)
  have exact: "Cursor_lastFrame (fst (flush enc (s, out))) =
       Some ` enc ` set (storedCells s) \<union> (if None \<in> set (Cursor_terminal s) then {None} else {})"
    by (simp add: flush_def storedCells_elements lastFrame_exact del: set_map)
  have rest: "fst (flush enc (s, out)) = s\<lparr>Cursor_lastFrame := Cursor_lastFrame (fst (flush enc (s, out)))\<rparr>"
    by (simp add: flush_def)
  have "filter (\<lambda>c. Some (enc c) \<notin> set (map (map_option enc) ?T)) (elements ?T) = []"
    by (simp add: filter_empty_conv frame_member del: set_map)
  then have twice: "snd (flush enc (flush enc (s, out))) = snd (flush enc (s, out)) @ [[]]"
    by (simp add: flush_def)
  from out frame exact rest twice show ?thesis by blast
qed

theorem flush_emits_changes_witness:
  "snd (flush plainEncoder (Cursor_write (emptyCursor 3 1) ''ab'', [])) = [''0;0Ha0;1Hb'']
   \<and> snd (flush plainEncoder (flush plainEncoder (Cursor_write (emptyCursor 3 1) ''ab'', [])))
       = [''0;0Ha0;1Hb'', []]"
proof -
  let ?s = "Cursor_write (emptyCursor 3 1) ''ab''"
  have s: "?s = \<lparr>Cursor_terminal =
        [Some \<lparr>Cell_char = CHR ''a'', Cell_x = 0, Cell_y = 0, Cell_background = None,
                Cell_foreground = None, Cell_display = DisplayFalse\<rparr>,
         Some \<lparr>Cell_char = CHR ''b'', Cell_x = 1, Cell_y = 0, Cell_background = None,
                Cell_foreground = None, Cell_display = DisplayFalse\<rparr>],
      Cursor_x = 2, Cursor_y = 0, Cursor_background = None, Cursor_foreground = None,
      Cursor_display = DisplayFalse, Cursor_width = 3, Cursor_height = 1, Cursor_lastFrame = {}\<rparr>"
    by (simp add: Cursor_write_def emptyCursor_def writeChar_def getPointerFromXY_def arraySet_def)
  have c: "storedCells ?s =
        [\<lparr>Cell_char = CHR ''a'', Cell_x = 0, Cell_y = 0, Cell_background = None,
                Cell_foreground = None, Cell_display = DisplayFalse\<rparr>,
         \<lparr>Cell_char = CHR ''b'', Cell_x = 1, Cell_y = 0, Cell_background = None,
                Cell_foreground = None, Cell_display = DisplayFalse\<rparr>]"
    unfolding s by (simp add: storedCells_def arrayGet_def upt_rec)
  have f: "snapshot ?s = {}" unfolding s by (simp add: snapshot_def)
  from flush_emits_changes [of plainEncoder ?s "[]"] show ?thesis
    unfolding c f by (simp add: plainEncoder_def digits16.simps hexDigit_def)
qed

text \<open>
  The example of the specification: on a 3 by 1 buffer, \<open>ab\<close> is written and flushed, then
  the first cell is overwritten with \<open>c\<close>: the second flush writes that cell only.
\<close>

lemma flush_overwrite_example:
  "snd (flush plainEncoder
         (Cursor_write (moveTo (fst (flush plainEncoder (Cursor_write (emptyCursor 3 1) ''ab'', []))) 0 0) ''c'',
          snd (flush plainEncoder (Cursor_write (emptyCursor 3 1) ''ab'', []))))
   = [''0;0Ha0;1Hb'', ''0;0Hc'']"
  by code_simp


end
